theory Spec2Isabelle
  imports Complex_Main "HOL-Library.Word"
begin

section \<open>The Python binding of the translator (python/translator.cc)\<close>

text \<open>
  The binding receives Python objects, turns them into vectors of token vectors, fills a
  \<open>TranslationOptions\<close> value, calls the translator pool and turns the pool's results
  back into Python objects. Exceptions are values of the type \<open>error\<close>. The pool is a
  parameter: a call of the binding is stated as the application of the pool's function to
  the arguments it is given, and the calls made are also recorded in a trace.
\<close>

subsection \<open>Python objects and the pybind11 operations used on them\<close>

type_synonym size_t = "64 word"
type_synonym tokens = "string list"
type_synonym batch = "tokens list"

text \<open>
  A \<open>std::string\<close> is a sequence of bytes: a \<open>string\<close>, whose characters are the 256
  byte values. A token vector is a \<open>std::vector<std::string>\<close>.

  The Python values the binding can meet. \<open>'f\<close> is the carrier of C++ \<open>float\<close>: the
  binding only moves such values around. \<open>PyInt\<close> and \<open>PyFloat\<close> stand for the objects
  that have neither a length nor an iterator and are not strings. A \<open>PyStr\<close> holds the code
  points of a \<open>str\<close> (the build for Python 3, where \<open>STR_TYPE\<close> is \<open>py::str\<close>); a
  \<open>PyDict\<close> holds its items in insertion order.
\<close>

datatype 'f pyobj =
    PyNone
  | PyInt int
  | PyFloat 'f
  | PyStr "nat list"
  | PyList "'f pyobj list"
  | PyTuple "'f pyobj list"
  | PyDict "('f pyobj \<times> 'f pyobj) list"

text \<open>The \<open>str\<close> whose code points are the byte values of an ASCII literal.\<close>

definition py_ascii :: "string \<Rightarrow> 'f pyobj" where
  "py_ascii s = PyStr (map of_char s)"

text \<open>
  \<open>InvalidArgument\<close> is \<open>std::invalid_argument\<close> with its message, \<open>TypeError\<close> is the
  \<open>py::error_already_set\<close> that \<open>py::len\<close> and iteration throw on an object without
  length or iterator, \<open>CastError\<close> is \<open>py::cast_error\<close>, \<open>UnicodeError\<close> is what the
  constructor of \<open>py::str\<close> throws on bytes that are not UTF-8. \<open>EngineFault\<close> and
  \<open>IOFault\<close> are the failures of the pool named by the specification.
\<close>

datatype error =
    InvalidArgument string
  | TypeError
  | CastError
  | UnicodeError
  | EngineFault string
  | IOFault string

subsection \<open>UTF-8\<close>

text \<open>
  pybind11 converts between \<open>str\<close> and \<open>std::string\<close> with Python's UTF-8 codec. A code
  point is encoded in one to four bytes; the surrogates \<open>D800\<close> to \<open>DFFF\<close> and the values
  from \<open>110000\<close> on have no encoding.
\<close>

definition utf8_encode_char :: "nat \<Rightarrow> string option" where
  "utf8_encode_char c =
     (if c < 0x80 then Some [char_of c]
      else if c < 0x800 then Some [char_of (0xC0 + c div 0x40), char_of (0x80 + c mod 0x40)]
      else if 0xD800 \<le> c \<and> c < 0xE000 then None
      else if c < 0x10000 then
        Some [char_of (0xE0 + c div 0x1000), char_of (0x80 + c div 0x40 mod 0x40),
              char_of (0x80 + c mod 0x40)]
      else if c < 0x110000 then
        Some [char_of (0xF0 + c div 0x40000), char_of (0x80 + c div 0x1000 mod 0x40),
              char_of (0x80 + c div 0x40 mod 0x40), char_of (0x80 + c mod 0x40)]
      else None)"

fun utf8_encode :: "nat list \<Rightarrow> string option" where
  "utf8_encode [] = Some []"
| "utf8_encode (c # cs) =
     (case utf8_encode_char c of
        None \<Rightarrow> None
      | Some bs \<Rightarrow> (case utf8_encode cs of None \<Rightarrow> None | Some rest \<Rightarrow> Some (bs @ rest)))"

text \<open>
  Decoding is strict: the first byte gives the length of a sequence (none for a
  continuation byte or for \<open>F8\<close> and above), the bits of the sequence give a code point,
  and the sequence is accepted when it is the encoding of that code point, which excludes
  wrong continuation bytes, overlong forms, surrogates and values out of range.
\<close>

definition utf8_sequence_length :: "nat \<Rightarrow> nat" where
  "utf8_sequence_length b =
     (if b < 0x80 then 1 else if b < 0xC0 then 0 else if b < 0xE0 then 2
      else if b < 0xF0 then 3 else if b < 0xF8 then 4 else 0)"

definition utf8_code_point :: "nat list \<Rightarrow> nat" where
  "utf8_code_point bs =
     (case bs of
        [b0] \<Rightarrow> b0
      | [b0, b1] \<Rightarrow> (b0 mod 0x20) * 0x40 + b1 mod 0x40
      | [b0, b1, b2] \<Rightarrow> (b0 mod 0x10) * 0x1000 + (b1 mod 0x40) * 0x40 + b2 mod 0x40
      | [b0, b1, b2, b3] \<Rightarrow>
          (b0 mod 0x08) * 0x40000 + (b1 mod 0x40) * 0x1000 + (b2 mod 0x40) * 0x40 + b3 mod 0x40
      | _ \<Rightarrow> 0x110000)"

function utf8_decode :: "string \<Rightarrow> nat list option" where
  "utf8_decode [] = Some []"
| "utf8_decode (b # bs) =
     (let n = utf8_sequence_length (of_char b);
          cp = utf8_code_point (map of_char (b # take (n - 1) bs))
      in if n = 0 \<or> length bs < n - 1 then None
         else if utf8_encode_char cp = Some (b # take (n - 1) bs)
           then (case utf8_decode (drop (n - 1) bs) of
                   None \<Rightarrow> None
                 | Some cs \<Rightarrow> Some (cp # cs))
         else None)"
  by pat_completeness auto
termination
proof (relation "measure length")
  show "wf (measure length)" by simp
next
  fix b :: char and bs :: string and n :: nat and cp :: nat
  show "(drop (n - 1) bs, b # bs) \<in> measure length" by simp
qed

declare utf8_decode.simps [simp del]

subsection \<open>The pybind11 operations\<close>

fun py_len :: "'f pyobj \<Rightarrow> error + nat" where
  "py_len (PyStr s) = Inr (length s)"
| "py_len (PyList xs) = Inr (length xs)"
| "py_len (PyTuple xs) = Inr (length xs)"
| "py_len (PyDict kvs) = Inr (length kvs)"
| "py_len _ = Inl TypeError"

text \<open>Iterating a string yields its code points as strings, iterating a dict its keys.\<close>

fun py_iter :: "'f pyobj \<Rightarrow> error + 'f pyobj list" where
  "py_iter (PyStr s) = Inr (map (\<lambda>c. PyStr [c]) s)"
| "py_iter (PyList xs) = Inr xs"
| "py_iter (PyTuple xs) = Inr xs"
| "py_iter (PyDict kvs) = Inr (map fst kvs)"
| "py_iter _ = Inl TypeError"

text \<open>
  \<open>s.cast<std::string>()\<close>: only a string converts, to its UTF-8 encoding; a string that
  has none (it holds a surrogate) does not convert.
\<close>

fun cast_string :: "'f pyobj \<Rightarrow> error + string" where
  "cast_string (PyStr s) = (case utf8_encode s of None \<Rightarrow> Inl CastError | Some bs \<Rightarrow> Inr bs)"
| "cast_string _ = Inl CastError"

text \<open>\<open>STR_TYPE(x)\<close>, that is \<open>py::str(x)\<close>: the bytes are decoded as UTF-8.\<close>

definition py_str :: "string \<Rightarrow> error + 'f pyobj" where
  "py_str x = (case utf8_decode x of None \<Rightarrow> Inl UnicodeError | Some s \<Rightarrow> Inr (PyStr s))"

text \<open>
  A loop \<open>for (x : xs) v.emplace_back(f(x))\<close> in which \<open>f\<close> may throw: the first
  exception, in the order of the elements, ends the loop.
\<close>

fun emplace_each :: "('a \<Rightarrow> 'e + 'b) \<Rightarrow> 'a list \<Rightarrow> 'e + 'b list" where
  "emplace_each f [] = Inr []"
| "emplace_each f (x # xs) =
     (case f x of
        Inl e \<Rightarrow> Inl e
      | Inr y \<Rightarrow> (case emplace_each f xs of Inl e \<Rightarrow> Inl e | Inr ys \<Rightarrow> Inr (y # ys)))"

definition std_vector_to_py_list :: "string list \<Rightarrow> error + 'f pyobj" where
  "std_vector_to_py_list v =
     (case emplace_each py_str v of Inl e \<Rightarrow> Inl e | Inr l \<Rightarrow> Inr (PyList l))"

definition std_vector_to_py_list_float :: "'f list \<Rightarrow> 'f pyobj" where
  "std_vector_to_py_list_float v = PyList (map PyFloat v)"

definition py_list_to_std_vector :: "'f pyobj \<Rightarrow> error + tokens" where
  "py_list_to_std_vector l =
     (case py_len l of
        Inl e \<Rightarrow> Inl e
      | Inr n \<Rightarrow> (case py_iter l of Inl e \<Rightarrow> Inl e | Inr ss \<Rightarrow> emplace_each cast_string ss))"

text \<open>The body of the loop of \<open>batch_to_vector\<close>, for one element of the list.\<close>

definition batch_entry :: "bool \<Rightarrow> 'f pyobj \<Rightarrow> error + tokens" where
  "batch_entry optional handle =
     (if handle = PyNone then
        (if optional then Inr []
         else Inl (InvalidArgument ''Invalid None value in input list''))
      else py_list_to_std_vector handle)"

definition batch_to_vector :: "'f pyobj \<Rightarrow> bool \<Rightarrow> error + batch" where
  "batch_to_vector l optional =
     (if l = PyNone then Inr []
      else (case py_len l of
              Inl e \<Rightarrow> Inl e
            | Inr n \<Rightarrow> (case py_iter l of
                          Inl e \<Rightarrow> Inl e
                        | Inr handles \<Rightarrow> emplace_each (batch_entry optional) handles)))"

subsection \<open>The library types the binding uses\<close>

text \<open>
  The fields of \<open>ctranslate2::TranslationOptions\<close> that the binding assigns. The values
  a default-constructed \<open>TranslationOptions\<close> has are set in a header that is not among
  the sources; they are the field \<open>default_options\<close> of the library below.
\<close>

record 'f TranslationOptions =
  max_batch_size :: size_t
  beam_size :: size_t
  length_penalty :: 'f
  sampling_topk :: size_t
  sampling_temperature :: 'f
  max_decoding_length :: size_t
  min_decoding_length :: size_t
  num_hypotheses :: size_t
  use_vmap :: bool
  return_attention :: bool
  return_alternatives :: bool

text \<open>
  Modelled from the spec: the class \<open>ctranslate2::TranslationResult\<close> is declared in a
  header that is not among the sources. The specification (data model) has a Hypothesis
  as a token sequence, a score and, optionally, an attention matrix with one row per
  output token, and a TranslationResult as the ordered list of the hypotheses of one
  input sequence. The accessors the binding calls read this value: \<open>num_hypotheses()\<close> is
  the length of the list, \<open>hypotheses()[i]\<close>, \<open>scores()[i]\<close> and \<open>attention()[i]\<close> are the
  parts of the \<open>i\<close>-th hypothesis, and \<open>has_attention()\<close> says that the attention is there.
\<close>

record 'f Hypothesis =
  hyp_tokens :: tokens
  hyp_score :: 'f
  hyp_attention :: "'f list list option"

type_synonym 'f TranslationResult = "'f Hypothesis list"

text \<open>The calls the binding makes to its \<open>_translator_pool\<close>, with their arguments.\<close>

datatype 'f pool_call =
    Post batch batch "'f TranslationOptions"
  | ConsumeTextFile string string size_t "'f TranslationOptions" bool

text \<open>
  What the binding takes from the library: the default \<open>TranslationOptions\<close> and the two
  member functions of \<open>TranslatorPool\<close> it calls. \<open>'s\<close> is the state those functions
  work on (the pool, its workers, the files). \<open>post\<close> stands for
  \<open>post(source, target_prefix, options).get()\<close>: the future's result or its exception.
\<close>

record ('s, 'f) library =
  default_options :: "'f TranslationOptions"
  post :: "batch \<Rightarrow> batch \<Rightarrow> 'f TranslationOptions \<Rightarrow> 's \<Rightarrow>
           (error + 'f TranslationResult list) \<times> 's"
  consume_text_file :: "string \<Rightarrow> string \<Rightarrow> size_t \<Rightarrow> 'f TranslationOptions \<Rightarrow> bool \<Rightarrow> 's \<Rightarrow>
           (error + size_t) \<times> 's"

text \<open>The state a call of the binding runs in: the pool's state and the trace of calls.\<close>

record ('s, 'f) world =
  pool :: 's
  calls :: "'f pool_call list"

subsection \<open>TranslatorWrapper\<close>

text \<open>
  The dictionary built for one hypothesis, and the list built for one result. Building
  the list of tokens can throw, and the exception leaves \<open>translate_batch\<close>.
\<close>

definition hypothesis_to_py :: "'f Hypothesis \<Rightarrow> error + 'f pyobj" where
  "hypothesis_to_py h =
     (case std_vector_to_py_list (hyp_tokens h) of
        Inl e \<Rightarrow> Inl e
      | Inr toks \<Rightarrow>
          Inr (PyDict ([(py_ascii ''score'', PyFloat (hyp_score h)),
                        (py_ascii ''tokens'', toks)] @
                       (case hyp_attention h of
                          None \<Rightarrow> []
                        | Some attn \<Rightarrow>
                            [(py_ascii ''attention'',
                              PyList (map std_vector_to_py_list_float attn))]))))"

definition result_to_py :: "'f TranslationResult \<Rightarrow> error + 'f pyobj" where
  "result_to_py result =
     (case emplace_each hypothesis_to_py result of
        Inl e \<Rightarrow> Inl e
      | Inr batch \<Rightarrow> Inr (PyList batch))"

text \<open>The options object \<open>translate_batch\<close> fills: every one of the eleven fields.\<close>

definition batch_options ::
  "'f TranslationOptions \<Rightarrow> size_t \<Rightarrow> size_t \<Rightarrow> size_t \<Rightarrow> 'f \<Rightarrow> size_t \<Rightarrow> size_t \<Rightarrow>
   bool \<Rightarrow> bool \<Rightarrow> bool \<Rightarrow> size_t \<Rightarrow> 'f \<Rightarrow> 'f TranslationOptions" where
  "batch_options options max_batch_size' beam_size' num_hypotheses' length_penalty'
       max_decoding_length' min_decoding_length' use_vmap' return_attention'
       return_alternatives' sampling_topk' sampling_temperature' =
     options\<lparr>max_batch_size := max_batch_size',
             beam_size := beam_size',
             length_penalty := length_penalty',
             sampling_topk := sampling_topk',
             sampling_temperature := sampling_temperature',
             max_decoding_length := max_decoding_length',
             min_decoding_length := min_decoding_length',
             num_hypotheses := num_hypotheses',
             use_vmap := use_vmap',
             return_attention := return_attention',
             return_alternatives := return_alternatives'\<rparr>"

definition translate_batch ::
  "('s, 'f) library \<Rightarrow> 'f pyobj \<Rightarrow> 'f pyobj \<Rightarrow> size_t \<Rightarrow> size_t \<Rightarrow> size_t \<Rightarrow> 'f \<Rightarrow> size_t \<Rightarrow>
   size_t \<Rightarrow> bool \<Rightarrow> bool \<Rightarrow> bool \<Rightarrow> size_t \<Rightarrow> 'f \<Rightarrow> ('s, 'f) world \<Rightarrow>
   (error + 'f pyobj) \<times> ('s, 'f) world" where
  "translate_batch lib source target_prefix max_batch_size' beam_size' num_hypotheses'
       length_penalty' max_decoding_length' min_decoding_length' use_vmap'
       return_attention' return_alternatives' sampling_topk' sampling_temperature' w =
     (if source = PyNone then (Inr (PyList []), w)
      else (case py_len source of
        Inl e \<Rightarrow> (Inl e, w)
      | Inr n \<Rightarrow>
          if n = 0 then (Inr (PyList []), w)
          else (case batch_to_vector source False of
            Inl e \<Rightarrow> (Inl e, w)
          | Inr source_input \<Rightarrow>
              (case batch_to_vector target_prefix True of
                Inl e \<Rightarrow> (Inl e, w)
              | Inr target_prefix_input \<Rightarrow>
                  (let options = batch_options (default_options lib) max_batch_size'
                         beam_size' num_hypotheses' length_penalty' max_decoding_length'
                         min_decoding_length' use_vmap' return_attention'
                         return_alternatives' sampling_topk' sampling_temperature';
                       r = post lib source_input target_prefix_input options (pool w);
                       w' = \<lparr>pool = snd r,
                             calls = calls w @ [Post source_input target_prefix_input options]\<rparr>
                   in (case fst r of
                         Inl e \<Rightarrow> (Inl e, w')
                       | Inr results \<Rightarrow>
                           (case emplace_each result_to_py results of
                              Inl e \<Rightarrow> (Inl e, w')
                            | Inr py_results \<Rightarrow> (Inr (PyList py_results), w'))))))))"

text \<open>The options object \<open>translate_file\<close> fills: nine fields, the other two stay.\<close>

definition file_options ::
  "'f TranslationOptions \<Rightarrow> size_t \<Rightarrow> size_t \<Rightarrow> size_t \<Rightarrow> 'f \<Rightarrow> size_t \<Rightarrow> size_t \<Rightarrow>
   bool \<Rightarrow> size_t \<Rightarrow> 'f \<Rightarrow> 'f TranslationOptions" where
  "file_options options max_batch_size' beam_size' num_hypotheses' length_penalty'
       max_decoding_length' min_decoding_length' use_vmap' sampling_topk'
       sampling_temperature' =
     options\<lparr>max_batch_size := max_batch_size',
             beam_size := beam_size',
             length_penalty := length_penalty',
             sampling_topk := sampling_topk',
             sampling_temperature := sampling_temperature',
             max_decoding_length := max_decoding_length',
             min_decoding_length := min_decoding_length',
             num_hypotheses := num_hypotheses',
             use_vmap := use_vmap'\<rparr>"

definition translate_file ::
  "('s, 'f) library \<Rightarrow> string \<Rightarrow> string \<Rightarrow> size_t \<Rightarrow> size_t \<Rightarrow> size_t \<Rightarrow> size_t \<Rightarrow> 'f \<Rightarrow>
   size_t \<Rightarrow> size_t \<Rightarrow> bool \<Rightarrow> bool \<Rightarrow> size_t \<Rightarrow> 'f \<Rightarrow> ('s, 'f) world \<Rightarrow>
   (error + 'f pyobj) \<times> ('s, 'f) world" where
  "translate_file lib in_file out_file max_batch_size' read_batch_size' beam_size'
       num_hypotheses' length_penalty' max_decoding_length' min_decoding_length' use_vmap'
       with_scores sampling_topk' sampling_temperature' w =
     (let options = file_options (default_options lib) max_batch_size' beam_size'
            num_hypotheses' length_penalty' max_decoding_length' min_decoding_length'
            use_vmap' sampling_topk' sampling_temperature';
          read_batch_size = (if read_batch_size' = 0 then max_batch_size' else read_batch_size');
          r = consume_text_file lib in_file out_file read_batch_size options with_scores (pool w);
          w' = \<lparr>pool = snd r,
                calls = calls w @ [ConsumeTextFile in_file out_file read_batch_size options
                                     with_scores]\<rparr>
      in (case fst r of
            Inl e \<Rightarrow> (Inl e, w')
          | Inr num_tokens \<Rightarrow> (Inr (PyTuple [PyInt (uint num_tokens)]), w')))"

section \<open>The translator pool and the file consumer\<close>

text \<open>
  The class \<open>ctranslate2::TranslatorPool\<close> and the inference engine behind it are not
  among the sources. The definitions of this section follow the specification's
  description of them (sections 3, 4.1 and 4.4).
\<close>

text \<open>
  Modelled from the spec: the configuration of \<open>TranslatorPool\<close>, which is not among the
  sources. A pool has an inference engine (\<open>decode(subBatch, options)\<close>, giving a result
  list or a fault) and a "pool-configured default" sub-batch size, used when
  \<open>max_batch_size\<close> is zero; \<open>mismatch_message\<close> is the text of the \<open>InvalidArgument\<close> for
  a target prefix of the wrong length (the specification names the error, not its text).
\<close>

record 'f pool_config =
  engine_decode :: "'f TranslationOptions \<Rightarrow> (tokens \<times> tokens) list \<Rightarrow>
                    string + 'f TranslationResult list"
  pool_batch_size :: nat
  mismatch_message :: string

text \<open>
  Modelled from the spec: the state \<open>TranslatorPool\<close> works on, which is not among the
  sources. It holds the sub-batches the workers were invoked on, in order, the input files
  ("one tokenized sequence per line") and the output files (one line per translated
  sequence: the score, when asked for, and the tokens of the top hypothesis).
\<close>

record 'f pool_state =
  worker_runs :: "(tokens \<times> tokens) list list"
  input_files :: "string \<rightharpoonup> batch"
  output_files :: "string \<rightharpoonup> ('f option \<times> tokens) list"

text \<open>
  Modelled from the spec: the partitioning of \<open>TranslatorPool\<close>, which is not among the
  sources. "Split the source batch into contiguous sub-batches of at most \<open>n\<close> elements,
  preserving original order"; a size of zero is "no explicit cap", so the whole batch is
  one sub-batch.
\<close>

function split_batch :: "nat \<Rightarrow> 'a list \<Rightarrow> 'a list list" where
  "split_batch n xs =
     (if xs = [] then []
      else if n = 0 then [xs]
      else take n xs # split_batch n (drop n xs))"
  by pat_completeness auto
termination
  by (relation "measure (\<lambda>(n, xs). length xs)") auto

declare split_batch.simps [simp del]

text \<open>
  Modelled from the spec: the pairing of \<open>TranslatorPool\<close>, which is not among the
  sources. Each source sequence goes with its target prefix, "by index"; an absent
  target-prefix list (the empty vector, which is what the binding passes for \<open>None\<close>)
  gives every sequence the empty prefix.
\<close>

definition pair_prefix :: "batch \<Rightarrow> batch \<Rightarrow> (tokens \<times> tokens) list" where
  "pair_prefix source target_prefix =
     zip source (if target_prefix = [] then replicate (length source) [] else target_prefix)"

text \<open>
  Modelled from the spec: the sub-batch size of \<open>TranslatorPool\<close>, which is not among the
  sources. "Let \<open>n = max_batch_size\<close> if nonzero else a pool-configured default."
\<close>

definition sub_batch_size :: "'f pool_config \<Rightarrow> 'f TranslationOptions \<Rightarrow> nat" where
  "sub_batch_size cfg options =
     (if max_batch_size options \<noteq> 0 then unat (max_batch_size options)
      else pool_batch_size cfg)"

text \<open>
  Modelled from the spec: dispatch and reassembly of \<open>TranslatorPool\<close>, which is not
  among the sources. A worker is invoked on each sub-batch and runs the engine on it with
  the options of the request; the result lists are concatenated in the order of the index
  ranges; a fault fails the request with its cause and no partial result is returned.
\<close>

fun run_sub_batches ::
  "'f pool_config \<Rightarrow> 'f TranslationOptions \<Rightarrow> (tokens \<times> tokens) list list \<Rightarrow> 'f pool_state \<Rightarrow>
   (error + 'f TranslationResult list) \<times> 'f pool_state" where
  "run_sub_batches cfg options [] st = (Inr [], st)"
| "run_sub_batches cfg options (sub # subs) st =
     (let st1 = st\<lparr>worker_runs := worker_runs st @ [sub]\<rparr> in
      case engine_decode cfg options sub of
        Inl fault \<Rightarrow> (Inl (EngineFault fault), st1)
      | Inr rs \<Rightarrow>
          (case run_sub_batches cfg options subs st1 of
             (Inl e, st2) \<Rightarrow> (Inl e, st2)
           | (Inr rest, st2) \<Rightarrow> (Inr (rs @ rest), st2)))"

text \<open>
  Modelled from the spec: \<open>TranslatorPool::post\<close> followed by \<open>get\<close>, which is not among
  the sources. "Empty batch: immediately return an empty result list without touching any
  worker"; a target prefix that is present and whose length is not the source's "fails
  with InvalidArgument", "detected before any Worker is touched".
\<close>

definition spec_post ::
  "'f pool_config \<Rightarrow> batch \<Rightarrow> batch \<Rightarrow> 'f TranslationOptions \<Rightarrow> 'f pool_state \<Rightarrow>
   (error + 'f TranslationResult list) \<times> 'f pool_state" where
  "spec_post cfg source target_prefix options st =
     (if source = [] then (Inr [], st)
      else if target_prefix \<noteq> [] \<and> length target_prefix \<noteq> length source
        then (Inl (InvalidArgument (mismatch_message cfg)), st)
      else run_sub_batches cfg options
             (split_batch (sub_batch_size cfg options) (pair_prefix source target_prefix)) st)"

text \<open>
  Modelled from the spec: the output of the streaming file consumer, which is not among
  the sources. It "writes the top hypothesis (and, if \<open>withScores\<close>, its score) for each
  line to output, one line per input line, in input order". A result without hypotheses,
  which the data model excludes, gives an empty line.
\<close>

definition output_line :: "bool \<Rightarrow> 'f TranslationResult \<Rightarrow> 'f option \<times> tokens" where
  "output_line with_scores result =
     (case result of
        [] \<Rightarrow> (None, [])
      | h # _ \<Rightarrow> (if with_scores then Some (hyp_score h) else None, hyp_tokens h))"

text \<open>
  Modelled from the spec: the writing of one batch's results by the streaming file
  consumer, which is not among the sources: the lines are appended to the output file.
\<close>

definition write_results ::
  "string \<Rightarrow> bool \<Rightarrow> 'f TranslationResult list \<Rightarrow> 'f pool_state \<Rightarrow> 'f pool_state" where
  "write_results out_file with_scores results st =
     st\<lparr>output_files := (output_files st)
          (out_file \<mapsto> (case output_files st out_file of None \<Rightarrow> [] | Some ls \<Rightarrow> ls) @
                        map (output_line with_scores) results)\<rparr>"

text \<open>
  Modelled from the spec: the count of the streaming file consumer, which is not among the
  sources: "the total number of source tokens processed".
\<close>

definition count_tokens :: "batch \<Rightarrow> nat" where
  "count_tokens lines = sum_list (map length lines)"

text \<open>
  Modelled from the spec: the loop of the streaming file consumer, which is not among the
  sources. Each batch of lines read is submitted to the pool; "only after that batch's
  ordered results are fully resolved" they are written, and the number of source tokens
  of the batch is added to the count, a \<open>size_t\<close>. "Failure in any batch aborts the whole
  operation; lines already written remain written."
\<close>

fun consume_batches ::
  "'f pool_config \<Rightarrow> string \<Rightarrow> 'f TranslationOptions \<Rightarrow> bool \<Rightarrow> batch list \<Rightarrow> size_t \<Rightarrow>
   'f pool_state \<Rightarrow> (error + size_t) \<times> 'f pool_state" where
  "consume_batches cfg out_file options with_scores [] num_tokens st = (Inr num_tokens, st)"
| "consume_batches cfg out_file options with_scores (b # bs) num_tokens st =
     (case spec_post cfg b [] options st of
        (Inl e, st1) \<Rightarrow> (Inl e, st1)
      | (Inr results, st1) \<Rightarrow>
          consume_batches cfg out_file options with_scores bs
            (num_tokens + of_nat (count_tokens b))
            (write_results out_file with_scores results st1))"

text \<open>
  Modelled from the spec: \<open>TranslatorPool::consume_text_file\<close>, which is not among the
  sources. The consumer "reads up to \<open>readBatchSize\<close> lines" at a time, the last batch
  being the lines that remain; an input file that cannot be read is an \<open>IOFault\<close>; the
  output file starts empty. It "returns the total number of source tokens processed,
  accumulated across all batches".
\<close>

definition spec_consume_text_file ::
  "'f pool_config \<Rightarrow> string \<Rightarrow> string \<Rightarrow> size_t \<Rightarrow> 'f TranslationOptions \<Rightarrow> bool \<Rightarrow>
   'f pool_state \<Rightarrow> (error + size_t) \<times> 'f pool_state" where
  "spec_consume_text_file cfg in_file out_file read_batch_size options with_scores st =
     (case input_files st in_file of
        None \<Rightarrow> (Inl (IOFault in_file), st)
      | Some lines \<Rightarrow>
          consume_batches cfg out_file options with_scores
            (split_batch (unat read_batch_size) lines) 0
            (st\<lparr>output_files := (output_files st)(out_file \<mapsto> [])\<rparr>))"

text \<open>
  Modelled from the spec: the library as the specification describes it, with the pool's
  configuration and the default options as parameters.
\<close>

definition spec_library ::
  "'f pool_config \<Rightarrow> 'f TranslationOptions \<Rightarrow> ('f pool_state, 'f) library" where
  "spec_library cfg dflt =
     \<lparr>default_options = dflt,
      post = spec_post cfg,
      consume_text_file = spec_consume_text_file cfg\<rparr>"

section \<open>A test double for the engine\<close>

text \<open>
  A pool whose engine returns, for each sequence, one hypothesis made of the target prefix
  followed by the source tokens, and a state with one input file of two lines. The
  concrete instances of the theorems below are taken here.
\<close>

definition echo_one :: "tokens \<times> tokens \<Rightarrow> string + real TranslationResult" where
  "echo_one st = Inr [\<lparr>hyp_tokens = snd st @ fst st, hyp_score = 0, hyp_attention = None\<rparr>]"

definition echo_engine ::
  "real TranslationOptions \<Rightarrow> (tokens \<times> tokens) list \<Rightarrow> string + real TranslationResult list" where
  "echo_engine options sub = emplace_each echo_one sub"

definition test_config :: "real pool_config" where
  "test_config = \<lparr>engine_decode = echo_engine, pool_batch_size = 2,
                   mismatch_message = ''target prefix length''\<rparr>"

definition test_defaults :: "real TranslationOptions" where
  "test_defaults = \<lparr>max_batch_size = 0, beam_size = 2, length_penalty = 0, sampling_topk = 1,
      sampling_temperature = 1, max_decoding_length = 250, min_decoding_length = 1,
      num_hypotheses = 1, use_vmap = False, return_attention = False,
      return_alternatives = False\<rparr>"

definition test_library :: "(real pool_state, real) library" where
  "test_library = spec_library test_config test_defaults"

definition test_world :: "(real pool_state, real) world" where
  "test_world = \<lparr>pool = \<lparr>worker_runs = [],
                          input_files = [''in.txt'' \<mapsto> [[''a'', ''b''], [''c'']]],
                          output_files = Map.empty\<rparr>,
                 calls = []\<rparr>"

text \<open>
  A second engine, which shows in its results the options it was given: two hypotheses per
  sequence, scored with \<open>length_penalty\<close> and \<open>sampling_temperature\<close>, with an attention
  matrix when \<open>return_attention\<close> is set; it has no result when \<open>return_alternatives\<close> is
  set.
\<close>

definition reflect_one ::
  "real TranslationOptions \<Rightarrow> tokens \<times> tokens \<Rightarrow> string + real TranslationResult" where
  "reflect_one options st =
     (if return_alternatives options then Inl ''alternatives''
      else Inr [\<lparr>hyp_tokens = snd st @ fst st, hyp_score = length_penalty options,
                 hyp_attention = (if return_attention options then Some [[1/4, 3/4]] else None)\<rparr>,
                \<lparr>hyp_tokens = snd st, hyp_score = sampling_temperature options,
                 hyp_attention = (if return_attention options then Some [[1]] else None)\<rparr>])"

definition reflect_engine ::
  "real TranslationOptions \<Rightarrow> (tokens \<times> tokens) list \<Rightarrow> string + real TranslationResult list" where
  "reflect_engine options sub = emplace_each (reflect_one options) sub"

definition reflect_config :: "real pool_config" where
  "reflect_config = \<lparr>engine_decode = reflect_engine, pool_batch_size = 2,
                      mismatch_message = ''target prefix length''\<rparr>"

definition reflect_library :: "(real pool_state, real) library" where
  "reflect_library = spec_library reflect_config test_defaults"

section \<open>Properties of the marshalling\<close>

lemma emplace_each_all2:
  "emplace_each f xs = Inr ys \<Longrightarrow> list_all2 (\<lambda>x y. f x = Inr y) xs ys"
  by (induction xs arbitrary: ys) (auto split: sum.splits)

lemma emplace_each_append:
  "emplace_each f (xs @ ys) =
     (case emplace_each f xs of
        Inl e \<Rightarrow> Inl e
      | Inr us \<Rightarrow> (case emplace_each f ys of Inl e \<Rightarrow> Inl e | Inr vs \<Rightarrow> Inr (us @ vs)))"
  by (induction xs) (auto split: sum.splits)

lemma emplace_each_total:
  "(\<And>x. x \<in> set xs \<Longrightarrow> f x = Inr (g x)) \<Longrightarrow> emplace_each f xs = Inr (map g xs)"
  by (induction xs) auto

text \<open>
  When \<open>f\<close> succeeds exactly on the elements with \<open>P\<close>, and gives \<open>h\<close> there, the loop
  succeeds exactly on the lists of such elements, and gives the map of \<open>h\<close>.
\<close>

lemma emplace_each_iff:
  assumes "\<And>x y. f x = Inr y \<longleftrightarrow> P x \<and> y = h x"
  shows "emplace_each f xs = Inr ys \<longleftrightarrow> (\<forall>x\<in>set xs. P x) \<and> ys = map h xs"
proof (induction xs arbitrary: ys)
  case Nil
  show ?case by auto
next
  case (Cons x xs)
  show ?case
  proof (cases "f x")
    case (Inl e)
    with assms[of x] show ?thesis by auto
  next
    case (Inr y)
    with assms[of x y] have x: "P x" "y = h x" by auto
    show ?thesis
    proof (cases "emplace_each f xs")
      case (Inl e)
      with Cons.IH have "\<not> (\<forall>x\<in>set xs. P x)" by auto
      with Inl Inr show ?thesis by auto
    next
      case r: (Inr zs)
      with Cons.IH[of zs] have "(\<forall>x\<in>set xs. P x)" "zs = map h xs" by auto
      with r Inr x show ?thesis by auto
    qed
  qed
qed

text \<open>On ASCII, UTF-8 is the identity on the byte values.\<close>

lemma utf8_encode_ascii:
  "\<forall>c\<in>set s. (of_char c :: nat) < 0x80 \<Longrightarrow> utf8_encode (map of_char s) = Some s"
  by (induction s) (auto simp: utf8_encode_char_def)

lemma utf8_decode_ascii:
  "\<forall>c\<in>set s. (of_char c :: nat) < 0x80 \<Longrightarrow> utf8_decode s = Some (map of_char s)"
  by (induction s)
     (auto simp: utf8_decode.simps utf8_encode_char_def utf8_sequence_length_def
        utf8_code_point_def)

lemma cast_string_ascii:
  "\<forall>c\<in>set s. (of_char c :: nat) < 0x80 \<Longrightarrow> cast_string (py_ascii s) = Inr s"
  by (simp add: py_ascii_def utf8_encode_ascii)

lemma batch_to_vector_length:
  "l \<noteq> PyNone \<Longrightarrow> batch_to_vector l opt = Inr B \<Longrightarrow> py_len l = Inr (length B)"
  by (cases l) (auto simp: batch_to_vector_def dest!: emplace_each_all2 list_all2_lengthD)

lemma batch_to_vector_nonempty:
  assumes "batch_to_vector l opt = Inr B" and "B \<noteq> []"
  shows "l \<noteq> PyNone \<and> py_len l = Inr (length B)"
proof -
  have "l \<noteq> PyNone" using assms by (auto simp: batch_to_vector_def)
  then show ?thesis using assms batch_to_vector_length by blast
qed

text \<open>
  The lists of strings, floats and dictionaries that \<open>translate_batch\<close> builds from the
  results: building them succeeds exactly when every token is UTF-8, and then each result
  is a list with one dictionary per hypothesis, holding the score, the decoded tokens and,
  if there is one, the attention matrix as a list of lists.
\<close>

lemma py_str_iff:
  "py_str t = Inr y \<longleftrightarrow> utf8_decode t \<noteq> None \<and> y = PyStr (the (utf8_decode t))"
  by (auto simp: py_str_def split: option.splits)

lemma case_sum_Inr_iff:
  assumes "\<And>z. g = Inr z \<longleftrightarrow> P \<and> z = c"
  shows "(case g of Inl e \<Rightarrow> Inl e | Inr z \<Rightarrow> Inr (k z)) = Inr y \<longleftrightarrow> P \<and> y = k c"
proof (cases g)
  case (Inl e)
  with assms[of c] show ?thesis by auto
next
  case (Inr z)
  with assms[of z] show ?thesis by auto
qed

lemma std_vector_to_py_list_iff:
  "std_vector_to_py_list v = Inr y \<longleftrightarrow>
     (\<forall>t\<in>set v. utf8_decode t \<noteq> None) \<and> y = PyList (map (\<lambda>t. PyStr (the (utf8_decode t))) v)"
  unfolding std_vector_to_py_list_def
  by (rule case_sum_Inr_iff) (rule emplace_each_iff, rule py_str_iff)

lemma hypothesis_to_py_iff:
  "hypothesis_to_py h = Inr y \<longleftrightarrow>
     (\<forall>t\<in>set (hyp_tokens h). utf8_decode t \<noteq> None) \<and>
     y = PyDict ((py_ascii ''score'', PyFloat (hyp_score h)) #
                 (py_ascii ''tokens'', PyList (map (\<lambda>t. PyStr (the (utf8_decode t))) (hyp_tokens h))) #
                 (case hyp_attention h of
                    None \<Rightarrow> []
                  | Some attn \<Rightarrow>
                      [(py_ascii ''attention'', PyList (map (\<lambda>row. PyList (map PyFloat row)) attn))]))"
proof -
  have a: "hypothesis_to_py h = Inr y \<longleftrightarrow>
     (\<forall>t\<in>set (hyp_tokens h). utf8_decode t \<noteq> None) \<and>
     y = PyDict ([(py_ascii ''score'', PyFloat (hyp_score h)),
                  (py_ascii ''tokens'', PyList (map (\<lambda>t. PyStr (the (utf8_decode t))) (hyp_tokens h)))] @
                 (case hyp_attention h of
                    None \<Rightarrow> []
                  | Some attn \<Rightarrow>
                      [(py_ascii ''attention'', PyList (map std_vector_to_py_list_float attn))]))"
    unfolding hypothesis_to_py_def
    by (rule case_sum_Inr_iff) (rule std_vector_to_py_list_iff)
  have eq: "(std_vector_to_py_list_float :: 'a list \<Rightarrow> 'a pyobj)
              = (\<lambda>row. PyList (map PyFloat row))"
    by (simp add: fun_eq_iff std_vector_to_py_list_float_def)
  show ?thesis using a unfolding eq by simp
qed

lemma result_to_py_iff:
  "result_to_py res = Inr y \<longleftrightarrow>
     (\<forall>h\<in>set res. \<forall>t\<in>set (hyp_tokens h). utf8_decode t \<noteq> None) \<and>
     y = PyList (map (\<lambda>h.
           PyDict ((py_ascii ''score'', PyFloat (hyp_score h)) #
                   (py_ascii ''tokens'', PyList (map (\<lambda>t. PyStr (the (utf8_decode t))) (hyp_tokens h))) #
                   (case hyp_attention h of
                      None \<Rightarrow> []
                    | Some attn \<Rightarrow>
                        [(py_ascii ''attention'', PyList (map (\<lambda>row. PyList (map PyFloat row)) attn))])))
           res)"
  unfolding result_to_py_def
  by (rule case_sum_Inr_iff) (rule emplace_each_iff, rule hypothesis_to_py_iff)

lemma results_to_py_iff:
  "emplace_each result_to_py rs = Inr ys \<longleftrightarrow>
     (\<forall>res\<in>set rs. \<forall>h\<in>set res. \<forall>t\<in>set (hyp_tokens h). utf8_decode t \<noteq> None) \<and>
     ys = map (\<lambda>res. PyList (map (\<lambda>h.
           PyDict ((py_ascii ''score'', PyFloat (hyp_score h)) #
                   (py_ascii ''tokens'', PyList (map (\<lambda>t. PyStr (the (utf8_decode t))) (hyp_tokens h))) #
                   (case hyp_attention h of
                      None \<Rightarrow> []
                    | Some attn \<Rightarrow>
                        [(py_ascii ''attention'', PyList (map (\<lambda>row. PyList (map PyFloat row)) attn))])))
           res)) rs"
  by (rule emplace_each_iff) (rule result_to_py_iff)

lemma py_str_ascii:
  "\<forall>c\<in>set s. (of_char c :: nat) < 0x80 \<Longrightarrow> py_str s = Inr (py_ascii s)"
  by (simp add: py_str_def py_ascii_def utf8_decode_ascii)

section \<open>translate\_batch\<close>

text \<open>
  A source that converts to a non-empty batch and a target prefix that converts reach the
  pool: the call is the pool's call, with the converted vectors and the options built from
  the arguments.
\<close>

lemma translate_batch_reaches_pool:
  assumes "batch_to_vector source False = Inr B" and "B \<noteq> []"
      and "batch_to_vector target_prefix True = Inr T"
  shows "translate_batch lib source target_prefix mbs bs nh lp maxl minl vm ra ralt topk temp w =
     (let options = batch_options (default_options lib) mbs bs nh lp maxl minl vm ra ralt topk temp;
          r = post lib B T options (pool w);
          w' = \<lparr>pool = snd r, calls = calls w @ [Post B T options]\<rparr>
      in (case fst r of
            Inl e \<Rightarrow> (Inl e, w')
          | Inr results \<Rightarrow>
              (case emplace_each result_to_py results of
                 Inl e \<Rightarrow> (Inl e, w')
               | Inr py_results \<Rightarrow> (Inr (PyList py_results), w'))))"
proof -
  from batch_to_vector_nonempty[OF assms(1,2)]
  have "source \<noteq> PyNone" and "py_len source = Inr (length B)" by auto
  then show ?thesis using assms by (simp add: translate_batch_def)
qed

text \<open>In every other case the pool is not called: the world stays as it was.\<close>

lemma translate_batch_no_call:
  assumes "\<forall>B T. \<not> (batch_to_vector source False = Inr B \<and> B \<noteq> [] \<and>
                     batch_to_vector target_prefix True = Inr T)"
  shows "snd (translate_batch lib source target_prefix mbs bs nh lp maxl minl vm ra ralt topk
                temp w) = w"
proof (cases "source = PyNone")
  case True
  then show ?thesis by (simp add: translate_batch_def)
next
  case False
  show ?thesis
  proof (cases "py_len source")
    case (Inl e)
    with False show ?thesis by (simp add: translate_batch_def)
  next
    case (Inr n)
    show ?thesis
    proof (cases "n = 0")
      case True
      with False Inr show ?thesis by (simp add: translate_batch_def)
    next
      case n: False
      show ?thesis
      proof (cases "batch_to_vector source False")
        case (Inl e)
        with False Inr n show ?thesis by (simp add: translate_batch_def)
      next
        case B: (Inr B)
        from batch_to_vector_length[OF False B] Inr n have "B \<noteq> []" by auto
        with assms B obtain e where "batch_to_vector target_prefix True = Inl e"
          by (cases "batch_to_vector target_prefix True") auto
        with False Inr n B show ?thesis by (simp add: translate_batch_def)
      qed
    qed
  qed
qed

text \<open>
  C2. When the source is \<open>None\<close> or the empty list, \<open>translate_batch\<close> returns the empty
  list and leaves the world as it was: no call is added to the trace and the state of the
  pool (its workers included) is the one before the call, whatever the library does.
\<close>

theorem translate_batch_empty_source:
  "source = PyNone \<or> source = PyList [] \<Longrightarrow>
   translate_batch lib source target_prefix mbs bs nh lp maxl minl vm ra ralt topk temp w
     = (Inr (PyList []), w)"
  by (auto simp: translate_batch_def)

theorem translate_batch_empty_source_witness:
  "translate_batch test_library (PyList []) (PyList [PyList [py_ascii ''a'']]) 0 2 1 0 250 1
      False False False 1 1 test_world = (Inr (PyList []), test_world) \<and>
   translate_batch test_library PyNone PyNone 0 2 1 0 250 1
      False False False 1 1 test_world = (Inr (PyList []), test_world)"
  using translate_batch_empty_source[of "PyList []" test_library
          "PyList [PyList [py_ascii ''a'']]" 0 2 1 0 250 1 False False False 1 1 test_world]
    translate_batch_empty_source[of PyNone test_library PyNone 0 2 1 0 250 1
          False False False 1 1 test_world]
  by simp

text \<open>
  C9. When the source is \<open>None\<close> or has length zero, the empty list is returned before the
  target prefix is looked at: a target prefix whose conversion would raise does not make
  the call raise.
\<close>

theorem translate_batch_empty_source_skips_prefix:
  "source = PyNone \<or> py_len source = Inr 0 \<Longrightarrow>
   batch_to_vector target_prefix True = Inl e \<Longrightarrow>
   fst (translate_batch lib source target_prefix mbs bs nh lp maxl minl vm ra ralt topk temp w)
     = Inr (PyList [])"
  by (auto simp: translate_batch_def)

theorem translate_batch_empty_source_skips_prefix_witness:
  "batch_to_vector (PyList [PyInt 7] :: real pyobj) True = Inl TypeError \<and>
   fst (translate_batch test_library (PyList []) (PyList [PyInt 7]) 0 2 1 0 250 1
      False False False 1 1 test_world) = Inr (PyList [])"
proof -
  have h: "batch_to_vector (PyList [PyInt 7] :: real pyobj) True = Inl TypeError"
    by (simp add: batch_to_vector_def batch_entry_def py_list_to_std_vector_def)
  have s: "PyList [] = (PyNone :: real pyobj) \<or> py_len (PyList [] :: real pyobj) = Inr 0"
    by simp
  show ?thesis
    using translate_batch_empty_source_skips_prefix[OF s h, of test_library 0 2 1 0 250 1
            False False False 1 1 test_world] h
    by simp
qed

text \<open>
  With \<open>optional\<close> set, a list whose entries are \<open>None\<close> or convert to token vectors
  converts as a whole, \<open>None\<close> giving the empty vector.
\<close>

lemma batch_entry_optional:
  "h = PyNone \<or> (\<exists>v. py_list_to_std_vector h = Inr v) \<Longrightarrow>
   batch_entry True h = Inr (if h = PyNone then [] else projr (py_list_to_std_vector h))"
  by (auto simp: batch_entry_def)

lemma batch_to_vector_optional:
  assumes "\<forall>h\<in>set hs. h = PyNone \<or> (\<exists>v. py_list_to_std_vector h = Inr v)"
  shows "batch_to_vector (PyList hs) True =
           Inr (map (\<lambda>h. if h = PyNone then [] else projr (py_list_to_std_vector h)) hs)"
proof -
  have "emplace_each (batch_entry True) hs =
          Inr (map (\<lambda>h. if h = PyNone then [] else projr (py_list_to_std_vector h)) hs)"
    by (rule emplace_each_total) (use assms batch_entry_optional in blast)
  then show ?thesis by (simp add: batch_to_vector_def)
qed

text \<open>
  C4. A target-prefix list whose entries are \<open>None\<close> or token lists is converted without
  an error; the vector has one entry per list entry, the entry of a \<open>None\<close> is the empty
  sequence, and (the source being a non-empty batch) this vector is what
  \<open>translate_batch\<close> passes to the pool.
\<close>

theorem target_prefix_none_entries:
  assumes "\<forall>h\<in>set hs. h = PyNone \<or> (\<exists>v. py_list_to_std_vector h = Inr v)"
      and "batch_to_vector source False = Inr B" and "B \<noteq> []"
  shows "\<exists>T. batch_to_vector (PyList hs) True = Inr T \<and> length T = length hs \<and>
             (\<forall>i<length hs. hs ! i = PyNone \<longrightarrow> T ! i = []) \<and>
             calls (snd (translate_batch lib source (PyList hs) mbs bs nh lp maxl minl vm ra
                           ralt topk temp w))
               = calls w @ [Post B T (batch_options (default_options lib) mbs bs nh lp maxl
                                        minl vm ra ralt topk temp)]"
proof -
  let ?T = "map (\<lambda>h. if h = PyNone then [] else projr (py_list_to_std_vector h)) hs"
  have T: "batch_to_vector (PyList hs) True = Inr ?T"
    using assms(1) by (rule batch_to_vector_optional)
  have "calls (snd (translate_batch lib source (PyList hs) mbs bs nh lp maxl minl vm ra
                           ralt topk temp w))
               = calls w @ [Post B ?T (batch_options (default_options lib) mbs bs nh lp maxl
                                        minl vm ra ralt topk temp)]"
    by (simp add: translate_batch_reaches_pool[OF assms(2,3) T] Let_def split: sum.splits)
  moreover have "\<forall>i<length hs. hs ! i = PyNone \<longrightarrow> ?T ! i = []" by simp
  ultimately show ?thesis using T by (intro exI[of _ ?T]) simp
qed

theorem target_prefix_none_entries_witness:
  "batch_to_vector (PyList [PyNone, PyList [py_ascii ''x'']] :: real pyobj) True
     = Inr [[], [''x'']] \<and>
   calls (snd (translate_batch test_library
                 (PyList [PyList [py_ascii ''a''], PyList [py_ascii ''b'']])
                 (PyList [PyNone, PyList [py_ascii ''x'']]) 0 2 1 0 250 1 False False False 1 1
                 test_world))
     = [Post [[''a''], [''b'']] [[], [''x'']] test_defaults]"
proof -
  have h: "\<forall>h\<in>set [PyNone, PyList [py_ascii ''x''] :: real pyobj].
             h = PyNone \<or> (\<exists>v. py_list_to_std_vector h = Inr v)"
    by (simp add: py_list_to_std_vector_def cast_string_ascii)
  have s: "batch_to_vector (PyList [PyList [py_ascii ''a''], PyList [py_ascii ''b'']]
             :: real pyobj) False = Inr [[''a''], [''b'']]"
    by (simp add: batch_to_vector_def batch_entry_def py_list_to_std_vector_def
          cast_string_ascii)
  have t: "batch_to_vector (PyList [PyNone, PyList [py_ascii ''x'']] :: real pyobj) True
             = Inr [[], [''x'']]"
    by (simp add: batch_to_vector_def batch_entry_def py_list_to_std_vector_def
          cast_string_ascii)
  from target_prefix_none_entries[OF h s, of test_library 0 2 1 0 250 1 False False False 1 1
         test_world]
  show ?thesis
    by (simp add: t test_library_def spec_library_def batch_options_def test_defaults_def
          test_world_def)
qed

text \<open>
  C5. When the source converts to a non-empty batch and the target prefix converts,
  \<open>translate_batch\<close> is one application of the pool's \<open>post\<close> to these vectors and to an
  options value in which each of the eleven fields is the argument of that name: the
  outcome and the new state of the pool are those of that application. In every other case
  \<open>post\<close> is not applied: the world is the one before the call.
\<close>

theorem translate_batch_options_unmodified:
  "(\<forall>B T. batch_to_vector source False = Inr B \<and> B \<noteq> [] \<and>
          batch_to_vector target_prefix True = Inr T \<longrightarrow>
      translate_batch lib source target_prefix mbs bs nh lp maxl minl vm ra ralt topk temp w =
        (let options = \<lparr>max_batch_size = mbs, beam_size = bs, length_penalty = lp,
                        sampling_topk = topk, sampling_temperature = temp,
                        max_decoding_length = maxl, min_decoding_length = minl,
                        num_hypotheses = nh, use_vmap = vm, return_attention = ra,
                        return_alternatives = ralt\<rparr>;
             r = post lib B T options (pool w);
             w' = \<lparr>pool = snd r, calls = calls w @ [Post B T options]\<rparr>
         in (case fst r of
               Inl e \<Rightarrow> (Inl e, w')
             | Inr results \<Rightarrow>
                 (case emplace_each result_to_py results of
                    Inl e \<Rightarrow> (Inl e, w')
                  | Inr py_results \<Rightarrow> (Inr (PyList py_results), w'))))) \<and>
   ((\<forall>B T. \<not> (batch_to_vector source False = Inr B \<and> B \<noteq> [] \<and>
              batch_to_vector target_prefix True = Inr T)) \<longrightarrow>
      snd (translate_batch lib source target_prefix mbs bs nh lp maxl minl vm ra ralt topk
             temp w) = w)"
proof -
  have opts: "batch_options (default_options lib) mbs bs nh lp maxl minl vm ra ralt topk temp =
     \<lparr>max_batch_size = mbs, beam_size = bs, length_penalty = lp, sampling_topk = topk,
      sampling_temperature = temp, max_decoding_length = maxl, min_decoding_length = minl,
      num_hypotheses = nh, use_vmap = vm, return_attention = ra,
      return_alternatives = ralt\<rparr>"
    by (simp add: batch_options_def)
  show ?thesis
    using translate_batch_reaches_pool[of source _ target_prefix _ lib mbs bs nh lp maxl minl
            vm ra ralt topk temp w]
      translate_batch_no_call[of source target_prefix lib mbs bs nh lp maxl minl vm ra ralt
            topk temp w]
    unfolding opts by blast
qed

theorem translate_batch_options_unmodified_witness:
  "fst (translate_batch reflect_library
          (PyList [PyList [py_ascii ''a''], PyList [py_ascii ''b'']]) PyNone
          1 5 3 (1/2) 100 2 True True False 4 (3/4) test_world)
     = Inr (PyList
         [PyList [PyDict [(py_ascii ''score'', PyFloat (1/2)),
                          (py_ascii ''tokens'', PyList [py_ascii ''a'']),
                          (py_ascii ''attention'', PyList [PyList [PyFloat (1/4), PyFloat (3/4)]])],
                  PyDict [(py_ascii ''score'', PyFloat (3/4)),
                          (py_ascii ''tokens'', PyList []),
                          (py_ascii ''attention'', PyList [PyList [PyFloat 1]])]],
          PyList [PyDict [(py_ascii ''score'', PyFloat (1/2)),
                          (py_ascii ''tokens'', PyList [py_ascii ''b'']),
                          (py_ascii ''attention'', PyList [PyList [PyFloat (1/4), PyFloat (3/4)]])],
                  PyDict [(py_ascii ''score'', PyFloat (3/4)),
                          (py_ascii ''tokens'', PyList []),
                          (py_ascii ''attention'', PyList [PyList [PyFloat 1]])]]]) \<and>
   worker_runs (pool (snd (translate_batch reflect_library
          (PyList [PyList [py_ascii ''a''], PyList [py_ascii ''b'']]) PyNone
          1 5 3 (1/2) 100 2 True True False 4 (3/4) test_world)))
     = [[([''a''], [])], [([''b''], [])]] \<and>
   calls (snd (translate_batch reflect_library
          (PyList [PyList [py_ascii ''a''], PyList [py_ascii ''b'']]) PyNone
          1 5 3 (1/2) 100 2 True True False 4 (3/4) test_world))
     = [Post [[''a''], [''b'']] [] \<lparr>max_batch_size = 1, beam_size = 5, length_penalty = 1/2,
           sampling_topk = 4, sampling_temperature = 3/4, max_decoding_length = 100,
           min_decoding_length = 2, num_hypotheses = 3, use_vmap = True,
           return_attention = True, return_alternatives = False\<rparr>]"
proof -
  let ?src = "PyList [PyList [py_ascii ''a''], PyList [py_ascii ''b'']] :: real pyobj"
  have s: "batch_to_vector ?src False = Inr [[''a''], [''b'']]"
    by (simp add: batch_to_vector_def batch_entry_def py_list_to_std_vector_def
          cast_string_ascii)
  have t: "batch_to_vector (PyNone :: real pyobj) True = Inr []"
    by (simp add: batch_to_vector_def)
  from translate_batch_options_unmodified[of ?src PyNone reflect_library
      1 5 3 "1/2" 100 2 True True False 4 "3/4" test_world] s t
  have "translate_batch reflect_library ?src PyNone 1 5 3 (1/2) 100 2 True True False 4 (3/4)
          test_world =
        (let options = \<lparr>max_batch_size = 1, beam_size = 5, length_penalty = 1/2,
                        sampling_topk = 4, sampling_temperature = 3/4,
                        max_decoding_length = 100, min_decoding_length = 2,
                        num_hypotheses = 3, use_vmap = True, return_attention = True,
                        return_alternatives = False\<rparr>;
             r = post reflect_library [[''a''], [''b'']] [] options (pool test_world);
             w' = \<lparr>pool = snd r,
                   calls = calls test_world @ [Post [[''a''], [''b'']] [] options]\<rparr>
         in (case fst r of
               Inl e \<Rightarrow> (Inl e, w')
             | Inr results \<Rightarrow>
                 (case emplace_each result_to_py results of
                    Inl e \<Rightarrow> (Inl e, w')
                  | Inr py_results \<Rightarrow> (Inr (PyList py_results), w'))))"
    by blast
  then show ?thesis
    by (simp add: Let_def reflect_library_def spec_library_def spec_post_def pair_prefix_def
          sub_batch_size_def reflect_config_def split_batch.simps reflect_engine_def
          reflect_one_def test_world_def result_to_py_def hypothesis_to_py_def
          std_vector_to_py_list_def std_vector_to_py_list_float_def py_str_ascii)
qed





section \<open>translate\_batch on the pool of the specification\<close>

lemma concat_split_batch: "concat (split_batch n xs) = xs"
proof (induction n xs rule: split_batch.induct)
  case (1 n xs)
  show ?case
  proof (cases "xs = [] \<or> n = 0")
    case True
    then show ?thesis by (auto simp: split_batch.simps[of n xs])
  next
    case False
    with "1.IH" have "concat (split_batch n (drop n xs)) = drop n xs" by simp
    with False show ?thesis by (simp add: split_batch.simps[of n xs])
  qed
qed

text \<open>
  An engine that treats the sequences of a sub-batch one by one (\<open>g\<close> is what it does
  with one sequence and its prefix) gives, over the sub-batches of a request, what it gives
  on the whole batch: the split does not show in the result.
\<close>

lemma run_sub_batches_elementwise:
  assumes "\<And>sub. engine_decode cfg options sub = emplace_each g sub"
  shows "fst (run_sub_batches cfg options subs st) =
           (case emplace_each g (concat subs) of
              Inl fault \<Rightarrow> Inl (EngineFault fault)
            | Inr rs \<Rightarrow> Inr rs)"
proof (induction subs arbitrary: st)
  case Nil
  show ?case by simp
next
  case (Cons sub subs)
  show ?case
    using Cons.IH[of "st\<lparr>worker_runs := worker_runs st @ [sub]\<rparr>"]
    by (auto simp: assms emplace_each_append Let_def split: sum.splits prod.splits)
qed

lemma length_pair_prefix:
  "T = [] \<or> length T = length B \<Longrightarrow> length (pair_prefix B T) = length B"
  by (auto simp: pair_prefix_def)

lemma nth_pair_prefix:
  "T = [] \<or> length T = length B \<Longrightarrow> i < length B \<Longrightarrow>
   pair_prefix B T ! i = (B ! i, if T = [] then [] else T ! i)"
  by (auto simp: pair_prefix_def)

lemma spec_post_elementwise:
  assumes "\<And>sub. engine_decode cfg options sub = emplace_each g sub" and "B \<noteq> []"
  shows "fst (spec_post cfg B T options st) =
           (if T \<noteq> [] \<and> length T \<noteq> length B
              then Inl (InvalidArgument (mismatch_message cfg))
            else (case emplace_each g (pair_prefix B T) of
                    Inl fault \<Rightarrow> Inl (EngineFault fault)
                  | Inr rs \<Rightarrow> Inr rs))"
  using assms(2)
  by (simp add: spec_post_def run_sub_batches_elementwise[of cfg options g, OF assms(1)]
        concat_split_batch)

lemma spec_post_mismatch:
  "B \<noteq> [] \<Longrightarrow> T \<noteq> [] \<Longrightarrow> length T \<noteq> length B \<Longrightarrow>
   spec_post cfg B T options st = (Inl (InvalidArgument (mismatch_message cfg)), st)"
  by (simp add: spec_post_def)

lemma translate_batch_spec_result:
  assumes "batch_to_vector source False = Inr B" and "B \<noteq> []"
      and "batch_to_vector target_prefix True = Inr T"
  shows "fst (translate_batch (spec_library cfg d) source target_prefix mbs bs nh lp maxl minl vm
                ra ralt topk temp w) =
         (case fst (spec_post cfg B T
                      (batch_options d mbs bs nh lp maxl minl vm ra ralt topk temp) (pool w)) of
            Inl e \<Rightarrow> Inl e
          | Inr results \<Rightarrow>
              (case emplace_each result_to_py results of
                 Inl e \<Rightarrow> Inl e
               | Inr py_results \<Rightarrow> Inr (PyList py_results)))"
  by (simp add: translate_batch_reaches_pool[OF assms] spec_library_def Let_def
        split: sum.splits)

lemma translate_batch_success_inputs:
  assumes "source \<noteq> PyNone" and "py_len source \<noteq> Inr 0"
      and "fst (translate_batch lib source target_prefix mbs bs nh lp maxl minl vm
                ra ralt topk temp w) = Inr r"
  shows "\<exists>B T. batch_to_vector source False = Inr B \<and> B \<noteq> [] \<and>
               batch_to_vector target_prefix True = Inr T"
proof -
  from assms obtain n where n: "py_len source = Inr n" "n \<noteq> 0"
    by (cases "py_len source") (auto simp: translate_batch_def)
  with assms obtain B where B: "batch_to_vector source False = Inr B"
    by (cases "batch_to_vector source False") (auto simp: translate_batch_def)
  with assms n obtain T where T: "batch_to_vector target_prefix True = Inr T"
    by (cases "batch_to_vector target_prefix True") (auto simp: translate_batch_def)
  from batch_to_vector_length[OF assms(1) B] n have "B \<noteq> []" by auto
  with B T show ?thesis by blast
qed

text \<open>
  C1. Let the engine treat the sequences of a sub-batch one by one, \<open>g\<close> giving the
  TranslationResult (or the fault) of one sequence with its prefix, and let the source be
  neither \<open>None\<close> nor of length zero. Then a call of \<open>translate_batch\<close> either raises or
  returns a list with one entry per source sequence, in the order of the source: the
  \<open>i\<close>-th entry is built from the engine's result for the \<open>i\<close>-th sequence, as the list of
  its hypotheses, each a dictionary with the score under \<open>"score"\<close>, the list of the
  tokens, decoded, under \<open>"tokens"\<close> and, if the hypothesis has one, the attention matrix
  as a list of lists of floats under \<open>"attention"\<close>. The call does return that list when
  the arguments convert, the target prefix is absent or as long as the source, the engine
  has a result for every sequence and the tokens of the results are UTF-8.
\<close>

theorem translate_batch_complete_ordered:
  assumes engine: "\<And>sub. engine_decode cfg
                      (batch_options d mbs bs nh lp maxl minl vm ra ralt topk temp) sub
                    = emplace_each g sub"
      and nonempty: "source \<noteq> PyNone" "py_len source \<noteq> Inr 0"
  shows "(\<forall>r. fst (translate_batch (spec_library cfg d) source target_prefix mbs bs nh lp maxl
                    minl vm ra ralt topk temp w) = Inr r \<longrightarrow>
            (\<exists>B T rs. batch_to_vector source False = Inr B \<and>
                      batch_to_vector target_prefix True = Inr T \<and>
                      py_len source = Inr (length B) \<and> length rs = length B \<and>
                      (\<forall>i<length B. g (B ! i, if T = [] then [] else T ! i) = Inr (rs ! i)) \<and>
                      (\<forall>res\<in>set rs. \<forall>h\<in>set res. \<forall>t\<in>set (hyp_tokens h).
                          utf8_decode t \<noteq> None) \<and>
                      r = PyList (map (\<lambda>res. PyList (map (\<lambda>h.
                            PyDict ((py_ascii ''score'', PyFloat (hyp_score h)) #
                                    (py_ascii ''tokens'',
                                     PyList (map (\<lambda>t. PyStr (the (utf8_decode t)))
                                               (hyp_tokens h))) #
                                    (case hyp_attention h of
                                       None \<Rightarrow> []
                                     | Some attn \<Rightarrow>
                                         [(py_ascii ''attention'',
                                           PyList (map (\<lambda>row. PyList (map PyFloat row))
                                                     attn))])))
                            res)) rs))) \<and>
         (\<forall>B T rs. batch_to_vector source False = Inr B \<and>
                   batch_to_vector target_prefix True = Inr T \<and>
                   (T = [] \<or> length T = length B) \<and>
                   emplace_each g (pair_prefix B T) = Inr rs \<and>
                   (\<forall>res\<in>set rs. \<forall>h\<in>set res. \<forall>t\<in>set (hyp_tokens h).
                       utf8_decode t \<noteq> None) \<longrightarrow>
            fst (translate_batch (spec_library cfg d) source target_prefix mbs bs nh lp maxl
                   minl vm ra ralt topk temp w)
              = Inr (PyList (map (\<lambda>res. PyList (map (\<lambda>h.
                            PyDict ((py_ascii ''score'', PyFloat (hyp_score h)) #
                                    (py_ascii ''tokens'',
                                     PyList (map (\<lambda>t. PyStr (the (utf8_decode t)))
                                               (hyp_tokens h))) #
                                    (case hyp_attention h of
                                       None \<Rightarrow> []
                                     | Some attn \<Rightarrow>
                                         [(py_ascii ''attention'',
                                           PyList (map (\<lambda>row. PyList (map PyFloat row))
                                                     attn))])))
                            res)) rs)))"
proof (intro conjI allI impI)
  fix r
  assume r: "fst (translate_batch (spec_library cfg d) source target_prefix mbs bs nh lp maxl
                    minl vm ra ralt topk temp w) = Inr r"
  from translate_batch_success_inputs[OF nonempty r]
  obtain B T where B: "batch_to_vector source False = Inr B" and ne: "B \<noteq> []"
    and T: "batch_to_vector target_prefix True = Inr T" by blast
  let ?post = "fst (spec_post cfg B T
                 (batch_options d mbs bs nh lp maxl minl vm ra ralt topk temp) (pool w))"
  from r obtain rs where rs: "?post = Inr rs"
    unfolding translate_batch_spec_result[OF B ne T] by (cases ?post) auto
  with r obtain ys where ys: "emplace_each result_to_py rs = Inr ys" and rr: "r = PyList ys"
    unfolding translate_batch_spec_result[OF B ne T]
    by (cases "emplace_each result_to_py rs :: error + 'a pyobj list") auto
  from rs have len: "T = [] \<or> length T = length B"
    unfolding spec_post_elementwise[of cfg _ g, OF engine ne] by (auto split: if_splits)
  with rs have e: "emplace_each g (pair_prefix B T) = Inr rs"
    unfolding spec_post_elementwise[of cfg _ g, OF engine ne] by (auto split: sum.splits)
  from emplace_each_all2[OF e] have a2: "list_all2 (\<lambda>x y. g x = Inr y) (pair_prefix B T) rs" .
  then have lrs: "length rs = length B" using length_pair_prefix[OF len]
    by (auto dest: list_all2_lengthD)
  have nth: "g (B ! i, if T = [] then [] else T ! i) = Inr (rs ! i)" if "i < length B" for i
  proof -
    from that have "i < length (pair_prefix B T)" using length_pair_prefix[OF len] by simp
    with a2 have "g (pair_prefix B T ! i) = Inr (rs ! i)" by (rule list_all2_nthD)
    then show ?thesis using nth_pair_prefix[OF len that] by simp
  qed
  from ys[unfolded results_to_py_iff] rr B T lrs nth batch_to_vector_length[OF nonempty(1) B]
  show "\<exists>B T rs. batch_to_vector source False = Inr B \<and>
                      batch_to_vector target_prefix True = Inr T \<and>
                      py_len source = Inr (length B) \<and> length rs = length B \<and>
                      (\<forall>i<length B. g (B ! i, if T = [] then [] else T ! i) = Inr (rs ! i)) \<and>
                      (\<forall>res\<in>set rs. \<forall>h\<in>set res. \<forall>t\<in>set (hyp_tokens h).
                          utf8_decode t \<noteq> None) \<and>
                      r = PyList (map (\<lambda>res. PyList (map (\<lambda>h.
                            PyDict ((py_ascii ''score'', PyFloat (hyp_score h)) #
                                    (py_ascii ''tokens'',
                                     PyList (map (\<lambda>t. PyStr (the (utf8_decode t)))
                                               (hyp_tokens h))) #
                                    (case hyp_attention h of
                                       None \<Rightarrow> []
                                     | Some attn \<Rightarrow>
                                         [(py_ascii ''attention'',
                                           PyList (map (\<lambda>row. PyList (map PyFloat row))
                                                     attn))])))
                            res)) rs)"
    by blast
next
  fix B T rs
  assume a: "batch_to_vector source False = Inr B \<and>
                   batch_to_vector target_prefix True = Inr T \<and>
                   (T = [] \<or> length T = length B) \<and>
                   emplace_each g (pair_prefix B T) = Inr rs \<and>
                   (\<forall>res\<in>set rs. \<forall>h\<in>set res. \<forall>t\<in>set (hyp_tokens h).
                       utf8_decode t \<noteq> None)"
  then have B: "batch_to_vector source False = Inr B"
    and T: "batch_to_vector target_prefix True = Inr T" by simp_all
  from batch_to_vector_length[OF nonempty(1) B] nonempty(2) have ne: "B \<noteq> []" by auto
  from a have post: "fst (spec_post cfg B T
                 (batch_options d mbs bs nh lp maxl minl vm ra ralt topk temp) (pool w)) = Inr rs"
    by (auto simp: spec_post_elementwise[of cfg _ g, OF engine ne])
  from a have "emplace_each result_to_py rs
      = Inr (map (\<lambda>res. PyList (map (\<lambda>h.
                            PyDict ((py_ascii ''score'', PyFloat (hyp_score h)) #
                                    (py_ascii ''tokens'',
                                     PyList (map (\<lambda>t. PyStr (the (utf8_decode t)))
                                               (hyp_tokens h))) #
                                    (case hyp_attention h of
                                       None \<Rightarrow> []
                                     | Some attn \<Rightarrow>
                                         [(py_ascii ''attention'',
                                           PyList (map (\<lambda>row. PyList (map PyFloat row))
                                                     attn))])))
                            res) :: 'a pyobj) rs)"
    unfolding results_to_py_iff by simp
  with post show "fst (translate_batch (spec_library cfg d) source target_prefix mbs bs nh lp maxl
                   minl vm ra ralt topk temp w)
              = Inr (PyList (map (\<lambda>res. PyList (map (\<lambda>h.
                            PyDict ((py_ascii ''score'', PyFloat (hyp_score h)) #
                                    (py_ascii ''tokens'',
                                     PyList (map (\<lambda>t. PyStr (the (utf8_decode t)))
                                               (hyp_tokens h))) #
                                    (case hyp_attention h of
                                       None \<Rightarrow> []
                                     | Some attn \<Rightarrow>
                                         [(py_ascii ''attention'',
                                           PyList (map (\<lambda>row. PyList (map PyFloat row))
                                                     attn))])))
                            res)) rs))"
    by (simp add: translate_batch_spec_result[OF B ne T])
qed

theorem translate_batch_complete_ordered_witness:
  "py_len (PyList [PyList [py_ascii ''hello'', py_ascii ''world''], PyList [py_ascii ''foo'']]
             :: real pyobj) = Inr 2 \<and>
   fst (translate_batch reflect_library
          (PyList [PyList [py_ascii ''hello'', py_ascii ''world''], PyList [py_ascii ''foo'']])
          PyNone 1 2 2 (1/2) 250 1 False True False 1 (3/4) test_world)
     = Inr (PyList
         [PyList [PyDict [(py_ascii ''score'', PyFloat (1/2)),
                          (py_ascii ''tokens'', PyList [py_ascii ''hello'', py_ascii ''world'']),
                          (py_ascii ''attention'', PyList [PyList [PyFloat (1/4), PyFloat (3/4)]])],
                  PyDict [(py_ascii ''score'', PyFloat (3/4)),
                          (py_ascii ''tokens'', PyList []),
                          (py_ascii ''attention'', PyList [PyList [PyFloat 1]])]],
          PyList [PyDict [(py_ascii ''score'', PyFloat (1/2)),
                          (py_ascii ''tokens'', PyList [py_ascii ''foo'']),
                          (py_ascii ''attention'', PyList [PyList [PyFloat (1/4), PyFloat (3/4)]])],
                  PyDict [(py_ascii ''score'', PyFloat (3/4)),
                          (py_ascii ''tokens'', PyList []),
                          (py_ascii ''attention'', PyList [PyList [PyFloat 1]])]]])"
proof -
  let ?src = "PyList [PyList [py_ascii ''hello'', py_ascii ''world''], PyList [py_ascii ''foo'']]
                :: real pyobj"
  let ?options = "batch_options test_defaults 1 2 2 (1/2) 250 1 False True False 1 (3/4)"
  let ?rs = "[[\<lparr>hyp_tokens = [''hello'', ''world''], hyp_score = 1/2,
                 hyp_attention = Some [[1/4, 3/4]]\<rparr>,
               \<lparr>hyp_tokens = [], hyp_score = 3/4, hyp_attention = Some [[1]]\<rparr>],
              [\<lparr>hyp_tokens = [''foo''], hyp_score = 1/2, hyp_attention = Some [[1/4, 3/4]]\<rparr>,
               \<lparr>hyp_tokens = [], hyp_score = 3/4, hyp_attention = Some [[1]]\<rparr>]]
             :: real TranslationResult list"
  have engine: "\<And>sub. engine_decode reflect_config ?options sub
                 = emplace_each (reflect_one ?options) sub"
    by (simp add: reflect_config_def reflect_engine_def)
  have ne: "?src \<noteq> PyNone" "py_len ?src \<noteq> Inr 0" by simp_all
  have B: "batch_to_vector ?src False = Inr [[''hello'', ''world''], [''foo'']]"
    by (simp add: batch_to_vector_def batch_entry_def py_list_to_std_vector_def
          cast_string_ascii)
  have T: "batch_to_vector (PyNone :: real pyobj) True = Inr []"
    by (simp add: batch_to_vector_def)
  have rs: "emplace_each (reflect_one ?options)
              (pair_prefix [[''hello'', ''world''], [''foo'']] []) = Inr ?rs"
    by (simp add: pair_prefix_def reflect_one_def batch_options_def)
  have utf: "\<forall>res\<in>set ?rs. \<forall>h\<in>set res. \<forall>t\<in>set (hyp_tokens h). utf8_decode t \<noteq> None"
    by (simp add: utf8_decode_ascii)
  have dec: "the (utf8_decode ''hello'') = map of_char ''hello''"
            "the (utf8_decode ''world'') = map of_char ''world''"
            "the (utf8_decode ''foo'') = map of_char ''foo''"
    by (simp_all add: utf8_decode_ascii)
  from translate_batch_complete_ordered[of reflect_config test_defaults 1 2 2 "1/2" 250 1 False
         True False 1 "3/4" "reflect_one ?options" ?src PyNone test_world, OF engine ne]
       B T rs utf
  have "fst (translate_batch (spec_library reflect_config test_defaults) ?src PyNone
          1 2 2 (1/2) 250 1 False True False 1 (3/4) test_world)
     = Inr (PyList (map (\<lambda>res. PyList (map (\<lambda>h.
                            PyDict ((py_ascii ''score'', PyFloat (hyp_score h)) #
                                    (py_ascii ''tokens'',
                                     PyList (map (\<lambda>t. PyStr (the (utf8_decode t)))
                                               (hyp_tokens h))) #
                                    (case hyp_attention h of
                                       None \<Rightarrow> []
                                     | Some attn \<Rightarrow>
                                         [(py_ascii ''attention'',
                                           PyList (map (\<lambda>row. PyList (map PyFloat row))
                                                     attn))])))
                            res)) ?rs))"
    by blast
  then show ?thesis
    by (simp add: reflect_library_def dec py_ascii_def)
qed

text \<open>
  The binding passes the same vector, the empty one, for a target prefix that is \<open>None\<close>
  and for one that is the empty list: no library can tell the two calls apart.
\<close>

lemma batch_to_vector_empty_list:
  "batch_to_vector (PyList [] :: 'f pyobj) optional = batch_to_vector (PyNone :: 'f pyobj) optional"
  by (simp add: batch_to_vector_def)

lemma translate_batch_empty_prefix_is_none:
  "translate_batch lib source (PyList []) mbs bs nh lp maxl minl vm ra ralt topk temp w =
   translate_batch lib source PyNone mbs bs nh lp maxl minl vm ra ralt topk temp w"
  unfolding translate_batch_def batch_to_vector_empty_list ..

text \<open>
  C3, as stated, fails. With the source \<open>[["a"]]\<close> and the target prefix \<open>[]\<close>, a list that
  is present and whose length, 0, is not the source's, 1, the call does not raise; the
  prefix reaches the pool as the empty vector, as an absent one does, a worker is invoked
  and the translation is returned. And with the target prefix \<open>[[1], ["x"]]\<close>, of length 2,
  the call raises the \<open>py::cast_error\<close> of the conversion, not \<open>InvalidArgument\<close>.
\<close>

theorem translate_batch_empty_prefix_list_accepted:
  "py_len (PyList [PyList [py_ascii ''a'']] :: real pyobj) = Inr 1 \<and>
   py_len (PyList [] :: real pyobj) = Inr 0 \<and>
   fst (translate_batch test_library (PyList [PyList [py_ascii ''a'']]) (PyList [])
          0 2 1 0 250 1 False False False 1 1 test_world)
     = Inr (PyList [PyList [PyDict [(py_ascii ''score'', PyFloat 0),
                                    (py_ascii ''tokens'', PyList [py_ascii ''a''])]]]) \<and>
   worker_runs (pool (snd (translate_batch test_library (PyList [PyList [py_ascii ''a'']])
          (PyList []) 0 2 1 0 250 1 False False False 1 1 test_world)))
     = [[([''a''], [])]] \<and>
   py_len (PyList [PyList [PyInt 1], PyList [py_ascii ''x'']] :: real pyobj) = Inr 2 \<and>
   fst (translate_batch test_library (PyList [PyList [py_ascii ''a'']])
          (PyList [PyList [PyInt 1], PyList [py_ascii ''x'']])
          0 2 1 0 250 1 False False False 1 1 test_world)
     = Inl CastError"
  by (simp add: translate_batch_def batch_to_vector_def batch_entry_def
        py_list_to_std_vector_def test_library_def spec_library_def spec_post_def
        pair_prefix_def batch_options_def test_defaults_def sub_batch_size_def test_config_def
        split_batch.simps echo_engine_def echo_one_def test_world_def Let_def
        result_to_py_def hypothesis_to_py_def std_vector_to_py_list_def cast_string_ascii
        py_str_ascii)

text \<open>
  C3, amended. When the source has a length that is not zero and the target prefix has a
  length that is neither zero nor the source's, the call fails and the state of the pool
  is the one before the call, so no worker was invoked: it fails with the error of the
  conversion when the source or the target prefix does not convert to token vectors, and
  with the pool's \<open>InvalidArgument\<close> when both convert.
\<close>

theorem translate_batch_prefix_length_mismatch:
  assumes "py_len source = Inr n" and "n \<noteq> 0"
      and "py_len target_prefix = Inr m" and "m \<noteq> 0" and "m \<noteq> n"
  shows "fst (translate_batch (spec_library cfg d) source target_prefix mbs bs nh lp maxl minl vm
                ra ralt topk temp w) =
           (case batch_to_vector source False of
              Inl e \<Rightarrow> Inl e
            | Inr B \<Rightarrow>
                (case batch_to_vector target_prefix True of
                   Inl e \<Rightarrow> Inl e
                 | Inr T \<Rightarrow> Inl (InvalidArgument (mismatch_message cfg)))) \<and>
         pool (snd (translate_batch (spec_library cfg d) source target_prefix mbs bs nh lp maxl
                      minl vm ra ralt topk temp w)) = pool w"
proof -
  from assms(1) have src: "source \<noteq> PyNone" by auto
  from assms(3) have tp: "target_prefix \<noteq> PyNone" by auto
  show ?thesis
  proof (cases "batch_to_vector source False")
    case (Inl e)
    with src assms(1,2) show ?thesis by (simp add: translate_batch_def)
  next
    case B: (Inr B)
    from batch_to_vector_length[OF src B] assms(1,2) have lB: "length B = n" "B \<noteq> []"
      by auto
    show ?thesis
    proof (cases "batch_to_vector target_prefix True")
      case (Inl e)
      with src assms(1,2) B show ?thesis by (simp add: translate_batch_def)
    next
      case T: (Inr T)
      from batch_to_vector_length[OF tp T] assms(3,4,5) lB
      have "T \<noteq> []" "length T \<noteq> length B" by auto
      with B T lB show ?thesis
        by (simp add: translate_batch_reaches_pool[OF B lB(2) T] spec_library_def
              spec_post_mismatch Let_def)
    qed
  qed
qed

theorem translate_batch_prefix_length_mismatch_witness:
  "fst (translate_batch test_library (PyList [PyList [py_ascii ''a''], PyList [py_ascii ''b'']])
          (PyList [PyNone]) 0 2 1 0 250 1 False False False 1 1 test_world)
     = Inl (InvalidArgument ''target prefix length'') \<and>
   pool (snd (translate_batch test_library
          (PyList [PyList [py_ascii ''a''], PyList [py_ascii ''b'']])
          (PyList [PyNone]) 0 2 1 0 250 1 False False False 1 1 test_world)) = pool test_world \<and>
   fst (translate_batch test_library (PyList [PyList [py_ascii ''a'']])
          (PyList [PyList [PyInt 1], PyList [py_ascii ''x'']])
          0 2 1 0 250 1 False False False 1 1 test_world) = Inl CastError \<and>
   pool (snd (translate_batch test_library (PyList [PyList [py_ascii ''a'']])
          (PyList [PyList [PyInt 1], PyList [py_ascii ''x'']])
          0 2 1 0 250 1 False False False 1 1 test_world)) = pool test_world"
proof -
  have B: "batch_to_vector (PyList [PyList [py_ascii ''a''], PyList [py_ascii ''b'']]
             :: real pyobj) False = Inr [[''a''], [''b'']]"
    by (simp add: batch_to_vector_def batch_entry_def py_list_to_std_vector_def
          cast_string_ascii)
  have T: "batch_to_vector (PyList [PyNone] :: real pyobj) True = Inr [[]]"
    by (simp add: batch_to_vector_def batch_entry_def)
  have B': "batch_to_vector (PyList [PyList [py_ascii ''a'']] :: real pyobj) False
              = Inr [[''a'']]"
    by (simp add: batch_to_vector_def batch_entry_def py_list_to_std_vector_def
          cast_string_ascii)
  have T': "batch_to_vector (PyList [PyList [PyInt 1], PyList [py_ascii ''x'']] :: real pyobj)
              True = Inl CastError"
    by (simp add: batch_to_vector_def batch_entry_def py_list_to_std_vector_def)
  from translate_batch_prefix_length_mismatch[of
         "PyList [PyList [py_ascii ''a''], PyList [py_ascii ''b'']]" 2 "PyList [PyNone]" 1
         test_config test_defaults 0 2 1 0 250 1 False False False 1 1 test_world]
       translate_batch_prefix_length_mismatch[of
         "PyList [PyList [py_ascii ''a'']]" 1
         "PyList [PyList [PyInt 1], PyList [py_ascii ''x'']]" 2
         test_config test_defaults 0 2 1 0 250 1 False False False 1 1 test_world]
  show ?thesis by (simp add: B T B' T' test_library_def test_config_def)
qed

section \<open>translate\_file\<close>

text \<open>
  C6. \<open>translate_file\<close> is one application of the pool's \<open>consume_text_file\<close>: the outcome
  and the new state of the pool are those of that application. The batch size it is
  applied to, for reading, is \<open>max_batch_size\<close> when \<open>read_batch_size\<close> is zero and
  \<open>read_batch_size\<close> itself otherwise.
\<close>

theorem translate_file_read_batch_size:
  "(read_batch_size' = 0 \<longrightarrow>
      translate_file lib in_file out_file mbs read_batch_size' bs nh lp maxl minl vm with_scores
        topk temp w =
        (let options = file_options (default_options lib) mbs bs nh lp maxl minl vm topk temp;
             r = consume_text_file lib in_file out_file mbs options with_scores (pool w);
             w' = \<lparr>pool = snd r,
                   calls = calls w @ [ConsumeTextFile in_file out_file mbs options
                                        with_scores]\<rparr>
         in (case fst r of
               Inl e \<Rightarrow> (Inl e, w')
             | Inr num_tokens \<Rightarrow> (Inr (PyTuple [PyInt (uint num_tokens)]), w')))) \<and>
   (read_batch_size' \<noteq> 0 \<longrightarrow>
      translate_file lib in_file out_file mbs read_batch_size' bs nh lp maxl minl vm with_scores
        topk temp w =
        (let options = file_options (default_options lib) mbs bs nh lp maxl minl vm topk temp;
             r = consume_text_file lib in_file out_file read_batch_size' options with_scores
                   (pool w);
             w' = \<lparr>pool = snd r,
                   calls = calls w @ [ConsumeTextFile in_file out_file read_batch_size' options
                                        with_scores]\<rparr>
         in (case fst r of
               Inl e \<Rightarrow> (Inl e, w')
             | Inr num_tokens \<Rightarrow> (Inr (PyTuple [PyInt (uint num_tokens)]), w'))))"
  by (simp add: translate_file_def Let_def)

theorem translate_file_read_batch_size_witness:
  "fst (translate_file test_library ''in.txt'' ''out.txt'' 2 0 2 1 0 250 1 False False 1 1
          test_world) = Inr (PyTuple [PyInt 3]) \<and>
   worker_runs (pool (snd (translate_file test_library ''in.txt'' ''out.txt'' 2 0 2 1 0 250 1
          False False 1 1 test_world)))
     = [[([''a'', ''b''], []), ([''c''], [])]] \<and>
   fst (translate_file test_library ''in.txt'' ''out.txt'' 2 1 2 1 0 250 1 False False 1 1
          test_world) = Inr (PyTuple [PyInt 3]) \<and>
   worker_runs (pool (snd (translate_file test_library ''in.txt'' ''out.txt'' 2 1 2 1 0 250 1
          False False 1 1 test_world)))
     = [[([''a'', ''b''], [])], [([''c''], [])]]"
proof -
  have z: "(0 :: size_t) = 0" and o: "(1 :: size_t) \<noteq> 0" by simp_all
  from translate_file_read_batch_size[of 0 test_library "''in.txt''" "''out.txt''" 2 2 1 0
          250 1 False False 1 1 test_world] z
  have a: "translate_file test_library ''in.txt'' ''out.txt'' 2 0 2 1 0 250 1 False False 1 1
             test_world =
        (let options = file_options (default_options test_library) 2 2 1 0 250 1 False 1 1;
             r = consume_text_file test_library ''in.txt'' ''out.txt'' 2 options False
                   (pool test_world);
             w' = \<lparr>pool = snd r,
                   calls = calls test_world @ [ConsumeTextFile ''in.txt'' ''out.txt'' 2 options
                                                 False]\<rparr>
         in (case fst r of
               Inl e \<Rightarrow> (Inl e, w')
             | Inr num_tokens \<Rightarrow> (Inr (PyTuple [PyInt (uint num_tokens)]), w')))"
    by blast
  from translate_file_read_batch_size[of 1 test_library "''in.txt''" "''out.txt''" 2 2 1 0
          250 1 False False 1 1 test_world] o
  have b: "translate_file test_library ''in.txt'' ''out.txt'' 2 1 2 1 0 250 1 False False 1 1
             test_world =
        (let options = file_options (default_options test_library) 2 2 1 0 250 1 False 1 1;
             r = consume_text_file test_library ''in.txt'' ''out.txt'' 1 options False
                   (pool test_world);
             w' = \<lparr>pool = snd r,
                   calls = calls test_world @ [ConsumeTextFile ''in.txt'' ''out.txt'' 1 options
                                                 False]\<rparr>
         in (case fst r of
               Inl e \<Rightarrow> (Inl e, w')
             | Inr num_tokens \<Rightarrow> (Inr (PyTuple [PyInt (uint num_tokens)]), w')))"
    by blast
  show ?thesis
    unfolding a b
    by (simp add: Let_def test_library_def spec_library_def spec_consume_text_file_def
          test_world_def split_batch.simps spec_post_def pair_prefix_def sub_batch_size_def
          file_options_def test_defaults_def test_config_def echo_engine_def echo_one_def
          write_results_def output_line_def count_tokens_def)
qed

text \<open>
  C10. The options \<open>consume_text_file\<close> is applied to by \<open>translate_file\<close> have the nine
  fields that are arguments, and the fields \<open>return_attention\<close> and \<open>return_alternatives\<close>
  of a default-constructed \<open>TranslationOptions\<close>, whatever the arguments are; when those
  defaults are false, both fields are false: file translation asks for neither attention
  nor alternatives.
\<close>

theorem translate_file_keeps_default_flags:
  "translate_file lib in_file out_file mbs rbs bs nh lp maxl minl vm with_scores topk temp w =
     (let options = \<lparr>max_batch_size = mbs, beam_size = bs, length_penalty = lp,
                     sampling_topk = topk, sampling_temperature = temp,
                     max_decoding_length = maxl, min_decoding_length = minl,
                     num_hypotheses = nh, use_vmap = vm,
                     return_attention = return_attention (default_options lib),
                     return_alternatives = return_alternatives (default_options lib)\<rparr>;
          n = (if rbs = 0 then mbs else rbs);
          r = consume_text_file lib in_file out_file n options with_scores (pool w);
          w' = \<lparr>pool = snd r,
                calls = calls w @ [ConsumeTextFile in_file out_file n options with_scores]\<rparr>
      in (case fst r of
            Inl e \<Rightarrow> (Inl e, w')
          | Inr num_tokens \<Rightarrow> (Inr (PyTuple [PyInt (uint num_tokens)]), w'))) \<and>
   (\<not> return_attention (default_options lib) \<and> \<not> return_alternatives (default_options lib) \<longrightarrow>
    translate_file lib in_file out_file mbs rbs bs nh lp maxl minl vm with_scores topk temp w =
     (let options = \<lparr>max_batch_size = mbs, beam_size = bs, length_penalty = lp,
                     sampling_topk = topk, sampling_temperature = temp,
                     max_decoding_length = maxl, min_decoding_length = minl,
                     num_hypotheses = nh, use_vmap = vm,
                     return_attention = False, return_alternatives = False\<rparr>;
          n = (if rbs = 0 then mbs else rbs);
          r = consume_text_file lib in_file out_file n options with_scores (pool w);
          w' = \<lparr>pool = snd r,
                calls = calls w @ [ConsumeTextFile in_file out_file n options with_scores]\<rparr>
      in (case fst r of
            Inl e \<Rightarrow> (Inl e, w')
          | Inr num_tokens \<Rightarrow> (Inr (PyTuple [PyInt (uint num_tokens)]), w'))))"
proof -
  have opts: "file_options (default_options lib) mbs bs nh lp maxl minl vm topk temp =
     \<lparr>max_batch_size = mbs, beam_size = bs, length_penalty = lp, sampling_topk = topk,
      sampling_temperature = temp, max_decoding_length = maxl, min_decoding_length = minl,
      num_hypotheses = nh, use_vmap = vm,
      return_attention = return_attention (default_options lib),
      return_alternatives = return_alternatives (default_options lib)\<rparr>"
    by (cases "default_options lib") (simp add: file_options_def)
  show ?thesis by (simp add: translate_file_def Let_def opts)
qed

theorem translate_file_keeps_default_flags_witness:
  "fst (translate_file reflect_library ''in.txt'' ''out.txt'' 32 0 5 3 (1/2) 100 2 True True
          4 (3/4) test_world) = Inr (PyTuple [PyInt 3]) \<and>
   output_files (pool (snd (translate_file reflect_library ''in.txt'' ''out.txt'' 32 0 5 3 (1/2)
          100 2 True True 4 (3/4) test_world))) ''out.txt''
     = Some [(Some (1/2), [''a'', ''b'']), (Some (1/2), [''c''])] \<and>
   calls (snd (translate_file reflect_library ''in.txt'' ''out.txt'' 32 0 5 3 (1/2) 100 2 True
          True 4 (3/4) test_world))
     = [ConsumeTextFile ''in.txt'' ''out.txt'' 32
          \<lparr>max_batch_size = 32, beam_size = 5, length_penalty = 1/2, sampling_topk = 4,
           sampling_temperature = 3/4, max_decoding_length = 100, min_decoding_length = 2,
           num_hypotheses = 3, use_vmap = True, return_attention = False,
           return_alternatives = False\<rparr> True]"
proof -
  have d: "\<not> return_attention (default_options reflect_library) \<and>
           \<not> return_alternatives (default_options reflect_library)"
    by (simp add: reflect_library_def spec_library_def test_defaults_def)
  from translate_file_keeps_default_flags[of reflect_library "''in.txt''" "''out.txt''" 32 0 5 3
          "1/2" 100 2 True True 4 "3/4" test_world] d
  have a: "translate_file reflect_library ''in.txt'' ''out.txt'' 32 0 5 3 (1/2) 100 2 True True
             4 (3/4) test_world =
     (let options = \<lparr>max_batch_size = 32, beam_size = 5, length_penalty = 1/2,
                     sampling_topk = 4, sampling_temperature = 3/4,
                     max_decoding_length = 100, min_decoding_length = 2,
                     num_hypotheses = 3, use_vmap = True,
                     return_attention = False, return_alternatives = False\<rparr>;
          n = (if (0 :: size_t) = 0 then 32 else 0);
          r = consume_text_file reflect_library ''in.txt'' ''out.txt'' n options True
                (pool test_world);
          w' = \<lparr>pool = snd r,
                calls = calls test_world @ [ConsumeTextFile ''in.txt'' ''out.txt'' n options
                                              True]\<rparr>
      in (case fst r of
            Inl e \<Rightarrow> (Inl e, w')
          | Inr num_tokens \<Rightarrow> (Inr (PyTuple [PyInt (uint num_tokens)]), w')))"
    by blast
  show ?thesis
    unfolding a
    by (simp add: Let_def reflect_library_def spec_library_def spec_consume_text_file_def
          test_world_def split_batch.simps spec_post_def pair_prefix_def sub_batch_size_def
          reflect_config_def reflect_engine_def reflect_one_def
          write_results_def output_line_def count_tokens_def)
qed

section \<open>translate\_file on the consumer of the specification\<close>

lemma count_tokens_append: "count_tokens (xs @ ys) = count_tokens xs + count_tokens ys"
  by (simp add: count_tokens_def)

lemma consume_batches_count:
  "consume_batches cfg out_file options with_scores bs acc st = (Inr n, st') \<Longrightarrow>
   n = acc + of_nat (count_tokens (concat bs))"
proof (induction bs arbitrary: acc st)
  case Nil
  then show ?case by (simp add: count_tokens_def)
next
  case (Cons b bs)
  from Cons.prems obtain results st1 where
    "consume_batches cfg out_file options with_scores bs (acc + of_nat (count_tokens b))
       (write_results out_file with_scores results st1) = (Inr n, st')"
    by (auto split: prod.splits sum.splits)
  from Cons.IH[OF this] have "n = acc + of_nat (count_tokens b) + of_nat (count_tokens (concat bs))" .
  then show ?case by (simp add: count_tokens_append add.assoc)
qed

text \<open>
  C7, as stated, fails: on an input file of two lines with three tokens in all, the value
  \<open>translate_file\<close> returns is the tuple \<open>(3,)\<close>, not the number 3.
\<close>

theorem translate_file_returns_tuple:
  "input_files (pool test_world) ''in.txt'' = Some [[''a'', ''b''], [''c'']] \<and>
   count_tokens [[''a'', ''b''], [''c'']] = 3 \<and>
   fst (translate_file test_library ''in.txt'' ''out.txt'' 1 0 2 1 0 250 1 False False 1 1
          test_world) = Inr (PyTuple [PyInt 3]) \<and>
   fst (translate_file test_library ''in.txt'' ''out.txt'' 1 0 2 1 0 250 1 False False 1 1
          test_world) \<noteq> Inr (PyInt 3)"
  by (simp add: translate_file_def Let_def test_library_def spec_library_def
        spec_consume_text_file_def test_world_def split_batch.simps spec_post_def
        pair_prefix_def sub_batch_size_def file_options_def test_defaults_def test_config_def
        echo_engine_def echo_one_def write_results_def output_line_def count_tokens_def)

lemma spec_consume_count:
  assumes "spec_consume_text_file cfg in_file out_file n options with_scores st = (Inr k, st')"
  shows "\<exists>lines. input_files st in_file = Some lines \<and> k = of_nat (count_tokens lines)"
proof -
  from assms obtain lines where lines: "input_files st in_file = Some lines"
    by (cases "input_files st in_file") (auto simp: spec_consume_text_file_def)
  with assms have "consume_batches cfg out_file options with_scores
                      (split_batch (unat n) lines) 0
                      (st\<lparr>output_files := (output_files st)(out_file \<mapsto> [])\<rparr>) = (Inr k, st')"
    by (simp add: spec_consume_text_file_def)
  from consume_batches_count[OF this] have "k = of_nat (count_tokens lines)"
    by (simp add: concat_split_batch)
  with lines show ?thesis by simp
qed

lemma run_sub_batches_no_fault:
  assumes "\<And>sub. \<exists>rs. engine_decode cfg options sub = Inr rs"
  shows "\<exists>rs st'. run_sub_batches cfg options subs st = (Inr rs, st')"
proof (induction subs arbitrary: st)
  case Nil
  show ?case by simp
next
  case (Cons sub subs)
  from assms obtain rs where rs: "engine_decode cfg options sub = Inr rs" by blast
  from Cons.IH[of "st\<lparr>worker_runs := worker_runs st @ [sub]\<rparr>"]
  obtain rest st2 where
    "run_sub_batches cfg options subs (st\<lparr>worker_runs := worker_runs st @ [sub]\<rparr>)
       = (Inr rest, st2)" by blast
  with rs show ?case by (simp add: Let_def)
qed

lemma consume_batches_no_fault:
  assumes "\<And>sub. \<exists>rs. engine_decode cfg options sub = Inr rs"
  shows "\<exists>k st'. consume_batches cfg out_file options with_scores bs acc st = (Inr k, st')"
proof (induction bs arbitrary: acc st)
  case Nil
  show ?case by simp
next
  case (Cons b bs)
  from run_sub_batches_no_fault[of cfg options, OF assms]
  obtain rs st1 where "spec_post cfg b [] options st = (Inr rs, st1)"
    by (fastforce simp: spec_post_def)
  with Cons.IH[of "acc + of_nat (count_tokens b)" "write_results out_file with_scores rs st1"]
  show ?case by simp
qed

lemma spec_consume_total:
  assumes "input_files st in_file = Some lines"
      and "\<And>sub. \<exists>rs. engine_decode cfg options sub = Inr rs"
  shows "fst (spec_consume_text_file cfg in_file out_file n options with_scores st)
           = Inr (of_nat (count_tokens lines))"
proof -
  from consume_batches_no_fault[of cfg options, OF assms(2)] assms(1)
  obtain k st' where
    k: "spec_consume_text_file cfg in_file out_file n options with_scores st = (Inr k, st')"
    by (fastforce simp: spec_consume_text_file_def)
  from spec_consume_count[OF k] assms(1) have "k = of_nat (count_tokens lines)" by auto
  with k show ?thesis by simp
qed

lemma uint_token_count:
  "uint (of_nat n :: size_t) = int (n mod 2 ^ 64)"
proof -
  have "unat (of_nat n :: size_t) = n mod 2 ^ 64" by (simp add: unat_of_nat)
  then show ?thesis by (simp only: uint_nat)
qed

text \<open>
  C7, amended. Every successful call of \<open>translate_file\<close> returns a tuple with one
  element, the total number of source tokens of the lines of the input file (as the
  \<open>size_t\<close> the consumer returns, so modulo \<open>2 ^ 64\<close>), whatever the batch size; and the
  call is successful when the input file is there and the engine has a result for every
  sub-batch.
\<close>

theorem translate_file_token_count:
  "(\<forall>v. fst (translate_file (spec_library cfg d) in_file out_file mbs rbs bs nh lp maxl minl
               vm with_scores topk temp w) = Inr v \<longrightarrow>
      (\<exists>lines. input_files (pool w) in_file = Some lines \<and>
                v = PyTuple [PyInt (int (count_tokens lines mod 2 ^ 64))])) \<and>
   (\<forall>lines. input_files (pool w) in_file = Some lines \<and>
            (\<forall>sub. \<exists>rs. engine_decode cfg (file_options d mbs bs nh lp maxl minl vm topk temp)
                           sub = Inr rs) \<longrightarrow>
      fst (translate_file (spec_library cfg d) in_file out_file mbs rbs bs nh lp maxl minl
             vm with_scores topk temp w)
        = Inr (PyTuple [PyInt (int (count_tokens lines mod 2 ^ 64))]))"
proof (intro conjI allI impI)
  fix v
  let ?options = "file_options d mbs bs nh lp maxl minl vm topk temp"
  let ?r = "spec_consume_text_file cfg in_file out_file (if rbs = 0 then mbs else rbs)
              ?options with_scores (pool w)"
  assume "fst (translate_file (spec_library cfg d) in_file out_file mbs rbs bs nh lp maxl minl
               vm with_scores topk temp w) = Inr v"
  then obtain k where r: "fst ?r = Inr k" and v: "v = PyTuple [PyInt (uint k)]"
    by (cases "fst ?r") (auto simp: translate_file_def spec_library_def Let_def)
  from r have "?r = (Inr k, snd ?r)" by (simp add: prod_eq_iff)
  from spec_consume_count[OF this] v
  show "\<exists>lines. input_files (pool w) in_file = Some lines \<and>
                v = PyTuple [PyInt (int (count_tokens lines mod 2 ^ 64))]"
    by (auto simp: uint_token_count)
next
  fix lines
  assume a: "input_files (pool w) in_file = Some lines \<and>
            (\<forall>sub. \<exists>rs. engine_decode cfg (file_options d mbs bs nh lp maxl minl vm topk temp)
                           sub = Inr rs)"
  then have "fst (spec_consume_text_file cfg in_file out_file (if rbs = 0 then mbs else rbs)
                (file_options d mbs bs nh lp maxl minl vm topk temp) with_scores (pool w))
             = Inr (of_nat (count_tokens lines))"
    by (intro spec_consume_total) auto
  then show "fst (translate_file (spec_library cfg d) in_file out_file mbs rbs bs nh lp maxl minl
             vm with_scores topk temp w)
        = Inr (PyTuple [PyInt (int (count_tokens lines mod 2 ^ 64))])"
    by (simp add: translate_file_def spec_library_def Let_def uint_token_count)
qed

theorem translate_file_token_count_witness:
  "input_files (pool test_world) ''in.txt'' = Some [[''a'', ''b''], [''c'']] \<and>
   int (count_tokens [[''a'', ''b''], [''c'']] mod 2 ^ 64) = 3 \<and>
   fst (translate_file test_library ''in.txt'' ''out.txt'' 1 0 2 1 0 250 1 False False 1 1
          test_world) = Inr (PyTuple [PyInt 3])"
proof -
  have f: "input_files (pool test_world) ''in.txt'' = Some [[''a'', ''b''], [''c'']]"
    by (simp add: test_world_def)
  have e: "\<forall>sub. \<exists>rs. engine_decode test_config
                         (file_options test_defaults 1 2 1 0 250 1 False 1 1) sub = Inr rs"
    by (simp add: test_config_def echo_engine_def echo_one_def emplace_each_total)
  have c: "int (count_tokens [[''a'', ''b''], [''c'']] mod 2 ^ 64) = 3"
    by (simp add: count_tokens_def)
  from translate_file_token_count[of test_config test_defaults "''in.txt''" "''out.txt''" 1 0 2 1
         0 250 1 False False 1 1 test_world] f e
  have "fst (translate_file (spec_library test_config test_defaults) ''in.txt'' ''out.txt''
               1 0 2 1 0 250 1 False False 1 1 test_world)
          = Inr (PyTuple [PyInt (int (count_tokens [[''a'', ''b''], [''c'']] mod 2 ^ 64))])"
    by blast
  with f c show ?thesis by (simp add: test_library_def)
qed

end
